theory Spec2Isabelle
  imports Complex_Main "HOL-Library.AList"
begin

section \<open>JavaScript values\<close>

text \<open>
  A JavaScript number is an IEEE double. Its finite values are idealised as reals
  (rounding is not modelled); the two infinities and NaN are kept apart, since the
  comparisons and \<open>typeof\<close> tests of the source treat them specially.
\<close>

datatype jsnum = Fin real | PosInf | NegInf | NaN

text \<open>
  A value as the report code meets it in a row: objects are association lists in
  the enumeration order of their own keys, a \<open>Date\<close> is its time value in
  milliseconds (\<open>None\<close> for an invalid date).
\<close>

datatype jsval =
    JUndefined
  | JNull
  | JBool bool
  | JNum jsnum
  | JStr string
  | JDate "int option"
  | JObj "(string \<times> jsval) list"

type_synonym obj = "(string \<times> jsval) list"

text \<open>\<open>a <= b\<close> on numbers, for a finite right-hand side: false on NaN.\<close>

fun num_le :: "jsnum \<Rightarrow> real \<Rightarrow> bool" where
  "num_le (Fin x) c = (x \<le> c)"
| "num_le NegInf c = True"
| "num_le PosInf c = False"
| "num_le NaN c = False"

text \<open>\<open>a === b\<close> on numbers, for a finite right-hand side.\<close>

fun num_eq :: "jsnum \<Rightarrow> real \<Rightarrow> bool" where
  "num_eq (Fin x) c = (x = c)"
| "num_eq _ c = False"

text \<open>\<open>typeof v === 'number'\<close>: NaN and the infinities are numbers too.\<close>

fun is_number :: "jsval \<Rightarrow> bool" where
  "is_number (JNum n) = True"
| "is_number _ = False"

fun is_string :: "jsval \<Rightarrow> bool" where
  "is_string (JStr s) = True"
| "is_string _ = False"

text \<open>Truthiness: \<open>undefined\<close>, \<open>null\<close>, \<open>false\<close>, \<open>0\<close>, \<open>NaN\<close> and \<open>''\<close> are falsy.\<close>

fun truthy :: "jsval \<Rightarrow> bool" where
  "truthy JUndefined = False"
| "truthy JNull = False"
| "truthy (JBool b) = b"
| "truthy (JNum (Fin x)) = (x \<noteq> 0)"
| "truthy (JNum NaN) = False"
| "truthy (JNum _) = True"
| "truthy (JStr s) = (s \<noteq> [])"
| "truthy (JDate t) = True"
| "truthy (JObj kvs) = True"

text \<open>\<open>a || b\<close>\<close>

definition js_or :: "jsval \<Rightarrow> jsval \<Rightarrow> jsval" where
  "js_or a b = (if truthy a then a else b)"

text \<open>Property read \<open>o[k]\<close> on a row: a missing key reads as \<open>undefined\<close>.\<close>

definition get :: "obj \<Rightarrow> string \<Rightarrow> jsval" where
  "get row k = (case map_of row k of None \<Rightarrow> JUndefined | Some v \<Rightarrow> v)"

text \<open>Property read on an arbitrary value that the source has tested to be an object.\<close>

fun get_prop :: "jsval \<Rightarrow> string \<Rightarrow> jsval" where
  "get_prop (JObj kvs) k = get kvs k"
| "get_prop _ k = JUndefined"

text \<open>
  What the host platform supplies: date parsing (\<open>new Date(s).getTime()\<close>, NaN when
  the string is no date), \<open>Number(s)\<close> on strings, \<open>JSON.parse\<close> (\<open>None\<close> when it
  throws), the time-zone database (offset from UTC in seconds of a named zone at an
  instant, \<open>None\<close> for a name \<open>Intl\<close> rejects with a RangeError), the zone used
  when no zone is given, \<open>String(v)\<close>, and the day-and-month text of an instant
  in a zone.
\<close>

record host =
  date_parse :: "string \<Rightarrow> jsnum"
  string_to_number :: "string \<Rightarrow> jsnum"
  json_parse :: "string \<Rightarrow> jsval option"
  tz_offset :: "string \<Rightarrow> int \<Rightarrow> int option"
  default_tz :: string
  to_string :: "jsval \<Rightarrow> string"
  day_label :: "string \<Rightarrow> int \<Rightarrow> string"

text \<open>
  \<open>Number(v)\<close>. A plain object converts to NaN (arrays, which convert through their
  string form, are not told apart from objects here).
\<close>

fun to_number :: "host \<Rightarrow> jsval \<Rightarrow> jsnum" where
  "to_number h JUndefined = NaN"
| "to_number h JNull = Fin 0"
| "to_number h (JBool b) = Fin (if b then 1 else 0)"
| "to_number h (JNum n) = n"
| "to_number h (JStr s) = string_to_number h s"
| "to_number h (JDate t) = (case t of None \<Rightarrow> NaN | Some ms \<Rightarrow> Fin (of_int ms))"
| "to_number h (JObj kvs) = NaN"

text \<open>\<open>n / c\<close> and \<open>n * c\<close> for a positive finite constant \<open>c\<close>.\<close>

fun num_div :: "jsnum \<Rightarrow> real \<Rightarrow> jsnum" where
  "num_div (Fin x) c = Fin (x / c)"
| "num_div n c = n"

fun num_mul :: "jsnum \<Rightarrow> real \<Rightarrow> jsnum" where
  "num_mul (Fin x) c = Fin (x * c)"
| "num_mul n c = n"

text \<open>\<open>n >= 0\<close>\<close>

fun num_ge0 :: "jsnum \<Rightarrow> bool" where
  "num_ge0 (Fin x) = (0 \<le> x)"
| "num_ge0 PosInf = True"
| "num_ge0 _ = False"

text \<open>
  \<open>new Date(n)\<close> for a number: the time value is truncated to whole milliseconds and
  the date is invalid beyond 8.64e15 ms from the epoch.
\<close>

definition trunc :: "real \<Rightarrow> int" where
  "trunc x = (if 0 \<le> x then \<lfloor>x\<rfloor> else \<lceil>x\<rceil>)"

fun new_Date :: "jsnum \<Rightarrow> int option" where
  "new_Date (Fin x) = (if \<bar>trunc x\<bar> \<le> 8640000000000000 then Some (trunc x) else None)"
| "new_Date _ = None"

section \<open>Summary Normalizer\<close>

text \<open>
  \<open>{ ...rawRow, ...(rawRow.data || {}) }\<close>: the own properties a spread copies. The
  field \<open>data\<close> is declared as an object; other values contribute nothing here.
\<close>

fun spread :: "jsval \<Rightarrow> obj" where
  "spread (JObj kvs) = kvs"
| "spread _ = []"

text \<open>Assigning a list of properties in order: an existing key keeps its place.\<close>

definition assign :: "obj \<Rightarrow> obj \<Rightarrow> obj" where
  "assign target props = fold (\<lambda>(k, v). AList.update k v) props target"

text \<open>The two date columns: \<open>startdate\<close>/\<open>w_startdate\<close> and \<open>enddate\<close>/\<open>w_enddate\<close>.\<close>

definition dateNum :: "host \<Rightarrow> jsval \<Rightarrow> jsval \<Rightarrow> jsnum" where
  "dateNum h plain prefixed =
     (case plain of
        JStr s \<Rightarrow> num_div (date_parse h s) 1000
      | _ \<Rightarrow>
         (if truthy prefixed \<and> is_string prefixed
          then (case prefixed of JStr s \<Rightarrow> num_div (date_parse h s) 1000 | _ \<Rightarrow> NaN)
          else (case plain of JNum n \<Rightarrow> n | _ \<Rightarrow> NaN)))"

definition date_utc :: "jsnum \<Rightarrow> int option" where
  "date_utc n = (if n \<noteq> NaN then new_Date (num_mul n 1000) else None)"

text \<open>\<open>const row = { ...rawRow, ...(rawRow.data || {}) }; delete row.data;\<close>\<close>

definition flatRow :: "obj \<Rightarrow> obj" where
  "flatRow rawRow =
     AList.delete ''data'' (assign rawRow (spread (js_or (get rawRow ''data'') (JObj []))))"

definition processSummaryRow :: "host \<Rightarrow> string \<Rightarrow> obj \<Rightarrow> obj" where
  "processSummaryRow h lab rawRow =
     (let row = flatRow rawRow;
          startdateNum = dateNum h (get row ''startdate'') (get row ''w_startdate'');
          enddateNum = dateNum h (get row ''enddate'') (get row ''w_enddate'');
          total_sleep_time_hours =
            (case get row ''total_sleep_time'' of
               JNum n \<Rightarrow> JNum (num_div n 3600) | _ \<Rightarrow> JNull);
          sleep_efficiency_percent =
            (case get row ''sleep_efficiency'' of
               JNum n \<Rightarrow> JNum (num_mul n 100) | _ \<Rightarrow> JNull);
          snoring_minutes =
            (case get row ''snoring'' of JNum n \<Rightarrow> JNum (num_div n 60) | _ \<Rightarrow> JNull);
          raw_apnea_hypopnea_index =
            (if to_number h (get row ''apnea_hypopnea_index'') = NaN then Fin (- 1)
             else to_number h (get row ''apnea_hypopnea_index''));
          apnea_hypopnea_index =
            (if num_ge0 raw_apnea_hypopnea_index then JNum raw_apnea_hypopnea_index
             else JNull);
          startdate_utc = date_utc startdateNum;
          enddate_utc = date_utc enddateNum;
          night_events_parsed =
            (case get row ''night_events'' of
               JStr s \<Rightarrow> (case json_parse h s of None \<Rightarrow> JUndefined | Some v \<Rightarrow> v)
             | v \<Rightarrow> v)
      in assign row
           [(''startdate'', JNum startdateNum),
            (''enddate'', JNum enddateNum),
            (''lab_id'', JStr lab),
            (''startdate_utc'', JDate startdate_utc),
            (''enddate_utc'', JDate enddate_utc),
            (''total_sleep_time_hours'', total_sleep_time_hours),
            (''sleep_efficiency_percent'', sleep_efficiency_percent),
            (''snoring_minutes'', snoring_minutes),
            (''apnea_hypopnea_index'', apnea_hypopnea_index),
            (''night_events'', night_events_parsed),
            (''sleep_duration_min'', total_sleep_time_hours)])"

definition processSummaryData :: "host \<Rightarrow> obj list \<Rightarrow> string \<Rightarrow> obj list" where
  "processSummaryData h summarySeries lab = map (processSummaryRow h lab) summarySeries"

section \<open>Epoch Flattener\<close>

text \<open>
  \<open>parseInt(s, 10)\<close>: leading white space is skipped, then an optional sign, then the
  longest run of decimal digits is read; no digit at all gives NaN (\<open>None\<close>). The
  value is idealised as an exact integer. Only the ASCII white space characters are
  recognised here.
\<close>

definition is_space :: "char \<Rightarrow> bool" where
  "is_space c = (of_char c \<in> {9, 10, 11, 12, 13, 32 :: nat})"

definition is_digit :: "char \<Rightarrow> bool" where
  "is_digit c = (48 \<le> (of_char c :: nat) \<and> (of_char c :: nat) \<le> 57)"

definition digits_value :: "string \<Rightarrow> int" where
  "digits_value ds = foldl (\<lambda>acc c. 10 * acc + (int (of_char c) - 48)) 0 ds"

definition parseInt :: "string \<Rightarrow> int option" where
  "parseInt s =
     (let t = dropWhile is_space s;
          (sign, u) = (case t of
                        c # r \<Rightarrow> (if c = CHR ''-'' then (- 1, r)
                                  else if c = CHR ''+'' then (1, r) else (1, t))
                      | [] \<Rightarrow> (1, t));
          ds = takeWhile is_digit u
      in if ds = [] then None else Some (sign * digits_value ds))"

record ProcessedEpoch =
  pe_id :: jsval
  pe_timezone :: jsval
  pe_timestamp :: int
  pe_datetime_utc :: "int option"
  pe_state :: jsval
  pe_night_events :: jsval
  pe_metrics :: obj

record SleepEpochRecord =
  sleep_id :: jsval
  series :: "obj list"

record summaryInfo =
  info_timezone :: jsval
  info_night_events :: jsval

definition dataFields :: "string list" where
  "dataFields = [''hr'', ''rr'', ''snoring'', ''sdnn_1'', ''rmssd'', ''mvt_score'',
                 ''chest_movement_rate'', ''withings_index'', ''breathing_sounds'']"

text \<open>
  \<open>new Map(summaryData.map(s => [s.id, {...}]))\<close> and \<open>summaryMap.get\<close>: a later
  summary with the same id replaces an earlier one. Keys are compared by
  SameValueZero, which on the values modelled here (ids are numbers or strings) is
  equality.
\<close>

definition summaryMap :: "obj list \<Rightarrow> jsval \<Rightarrow> summaryInfo option" where
  "summaryMap summaryData =
     map_of (rev (map (\<lambda>s. (get s ''id'',
                              \<lparr>info_timezone = get s ''timezone'',
                               info_night_events = get s ''night_events''\<rparr>)) summaryData))"

text \<open>
  The test that selects the reference field: a known metric field whose value is a
  non-null object with at least one own key.
\<close>

fun own_keys :: "jsval \<Rightarrow> string list" where
  "own_keys (JObj kvs) = map fst kvs"
| "own_keys _ = []"

fun is_object :: "jsval \<Rightarrow> bool" where
  "is_object (JObj kvs) = True"
| "is_object (JDate t) = True"
| "is_object JNull = True"
| "is_object _ = False"

definition is_candidate :: "obj \<Rightarrow> string \<Rightarrow> bool" where
  "is_candidate seriesItem candidate =
     (candidate \<in> set dataFields \<and> is_object (get seriesItem candidate)
        \<and> get seriesItem candidate \<noteq> JNull
        \<and> length (own_keys (get seriesItem candidate)) > 0)"

text \<open>
  The \<open>for (const candidate in seriesItem)\<close> loop with its \<open>break\<close>, over the keys of
  the segment in their enumeration order.
\<close>

fun refFieldLoop :: "obj \<Rightarrow> string list \<Rightarrow> string option" where
  "refFieldLoop seriesItem [] = None"
| "refFieldLoop seriesItem (candidate # rest) =
     (if is_candidate seriesItem candidate then Some candidate
      else refFieldLoop seriesItem rest)"

definition refField :: "obj \<Rightarrow> string option" where
  "refField seriesItem = refFieldLoop seriesItem (map fst seriesItem)"

text \<open>The inner loop \<open>for (const field of dataFields)\<close> that fills one row.\<close>

definition fieldValue :: "obj \<Rightarrow> string \<Rightarrow> string \<Rightarrow> jsval" where
  "fieldValue seriesItem tsStr field =
     (let fieldData = get seriesItem field
      in if truthy fieldData \<and> is_object fieldData \<and> get_prop fieldData tsStr \<noteq> JUndefined
         then get_prop fieldData tsStr else JNull)"

definition epochRow :: "jsval \<Rightarrow> summaryInfo \<Rightarrow> obj \<Rightarrow> string \<Rightarrow> int \<Rightarrow> ProcessedEpoch" where
  "epochRow sid info seriesItem tsStr ts =
     \<lparr>pe_id = sid,
      pe_timezone = info_timezone info,
      pe_timestamp = ts,
      pe_datetime_utc = new_Date (Fin (of_int (ts * 1000))),
      pe_state = get seriesItem ''state'',
      pe_night_events = info_night_events info,
      pe_metrics = map (\<lambda>field. (field, fieldValue seriesItem tsStr field)) dataFields\<rparr>"

text \<open>The loop \<open>for (const tsStr of timestamps)\<close>, pushing onto \<open>allEpochs\<close>.\<close>

fun timestampsLoop ::
  "jsval \<Rightarrow> summaryInfo \<Rightarrow> obj \<Rightarrow> string list \<Rightarrow> ProcessedEpoch list \<Rightarrow> ProcessedEpoch list"
where
  "timestampsLoop sid info seriesItem [] allEpochs = allEpochs"
| "timestampsLoop sid info seriesItem (tsStr # rest) allEpochs =
     (case parseInt tsStr of
        None \<Rightarrow> timestampsLoop sid info seriesItem rest allEpochs
      | Some ts \<Rightarrow>
          timestampsLoop sid info seriesItem rest
            (allEpochs @ [epochRow sid info seriesItem tsStr ts]))"

text \<open>One pass of the loop \<open>for (const seriesItem of record.series)\<close>.\<close>

definition seriesItemStep ::
  "jsval \<Rightarrow> summaryInfo \<Rightarrow> obj \<Rightarrow> ProcessedEpoch list \<Rightarrow> ProcessedEpoch list"
where
  "seriesItemStep sid info seriesItem allEpochs =
     (case refField seriesItem of
        None \<Rightarrow> allEpochs
      | Some f \<Rightarrow>
          (if \<not> truthy (get seriesItem f) then allEpochs
           else timestampsLoop sid info seriesItem (own_keys (get seriesItem f)) allEpochs))"

fun seriesLoop ::
  "jsval \<Rightarrow> summaryInfo \<Rightarrow> obj list \<Rightarrow> ProcessedEpoch list \<Rightarrow> ProcessedEpoch list"
where
  "seriesLoop sid info [] allEpochs = allEpochs"
| "seriesLoop sid info (seriesItem # rest) allEpochs =
     seriesLoop sid info rest (seriesItemStep sid info seriesItem allEpochs)"

text \<open>The outer loop \<open>for (const record of epochRecords)\<close>.\<close>

fun recordsLoop ::
  "(jsval \<Rightarrow> summaryInfo option) \<Rightarrow> SleepEpochRecord list \<Rightarrow> ProcessedEpoch list
     \<Rightarrow> ProcessedEpoch list"
where
  "recordsLoop smap [] allEpochs = allEpochs"
| "recordsLoop smap (record # rest) allEpochs =
     (case smap (sleep_id record) of
        None \<Rightarrow> recordsLoop smap rest allEpochs
      | Some info \<Rightarrow>
          recordsLoop smap rest (seriesLoop (sleep_id record) info (series record) allEpochs))"

text \<open>\<open>epochRecords\<close> may be absent (\<open>None\<close>): the function then returns no rows.\<close>

definition processEpochData ::
  "SleepEpochRecord list option \<Rightarrow> obj list \<Rightarrow> ProcessedEpoch list"
where
  "processEpochData epochRecords summaryData =
     (case epochRecords of
        None \<Rightarrow> []
      | Some records \<Rightarrow> recordsLoop (summaryMap summaryData) records [])"

section \<open>Report generation\<close>

datatype js_error = Error string | TypeError string

text \<open>
  What \<open>generateReport\<close> decides from its arguments before it fills the HTML
  template: the template text itself is not modelled.
\<close>

record report =
  rp_label :: string
  rp_hasEpochData :: bool
  rp_summary_columns :: "string list"
  rp_footer_links :: "string list"
  rp_night_meta_ids :: "jsval list"
  rp_nightly_data_note :: bool

definition generateReport ::
  "string \<Rightarrow> obj list \<Rightarrow> ProcessedEpoch list option \<Rightarrow> bool \<Rightarrow> js_error + report"
where
  "generateReport lab summaryData epochData applyTimezone =
     (if length summaryData = 0
      then Inl (Error ''No data found for this user to generate a report.'')
      else
        (let hasEpochData = (case epochData of None \<Rightarrow> False | Some es \<Rightarrow> length es > 0)
         in Inr \<lparr>rp_label = lab,
                  rp_hasEpochData = hasEpochData,
                  rp_summary_columns = map fst (hd summaryData),
                  rp_footer_links =
                    (if hasEpochData then [''summary-data-link'', ''epoch-data-link'']
                     else [''summary-data-link'']),
                  rp_night_meta_ids =
                    (if hasEpochData then map (\<lambda>row. get row ''id'') summaryData else []),
                  rp_nightly_data_note = (\<not> hasEpochData)\<rparr>))"

section \<open>Wake-Episode Detector\<close>

text \<open>
  The rows of the epoch table as the report page builds them: \<open>date\<close> is
  \<open>new Date(timestamp * 1000)\<close>, kept in milliseconds. Rows whose \<open>id\<close> or
  \<open>timestamp\<close> is falsy are dropped when the table is read.
\<close>

record EpochRow =
  row_id :: jsval
  row_state :: jsval
  row_timestamp :: int
  row_date :: int

definition epochRows :: "(jsval \<times> jsval \<times> int) list \<Rightarrow> EpochRow list" where
  "epochRows csv =
     filter (\<lambda>r. truthy (row_id r) \<and> row_timestamp r \<noteq> 0)
       (map (\<lambda>(i, s, t). \<lparr>row_id = i, row_state = s, row_timestamp = t,
                             row_date = t * 1000\<rparr>) csv)"

text \<open>
  A summary row as \<open>findWakeEpisodes\<close> reads it. The page keeps a summary row only
  when both of its dates are valid, so the two dates are time values in milliseconds.
\<close>

record NightRow =
  nr_w_id :: jsval
  nr_id :: jsval
  nr_startdate_utc :: int
  nr_enddate_utc :: int

record interval =
  night_start :: int
  night_end :: int

record WakeEpisode =
  wk_id :: string
  wk_start :: int
  wk_end :: int
  durationSec :: real

text \<open>
  The block that closes an episode (it occurs twice in the source, inside the loop
  and after it): clip, measure, and push when the duration reaches 600 seconds.
\<close>

definition pushEpisode ::
  "interval \<Rightarrow> string \<Rightarrow> int \<Rightarrow> int \<Rightarrow> WakeEpisode list \<Rightarrow> WakeEpisode list"
where
  "pushEpisode night i episodeStart episodeEnd results =
     (let clippedStart = (if episodeStart < night_start night then night_start night
                          else episodeStart);
          clippedEnd = (if episodeEnd > night_end night then night_end night
                        else episodeEnd);
          duration = real_of_int (clippedEnd - clippedStart) / 1000
      in if duration \<ge> 600
         then results @ [\<lparr>wk_id = i, wk_start = clippedStart, wk_end = clippedEnd,
                          durationSec = duration\<rparr>]
         else results)"

definition awake :: "EpochRow \<Rightarrow> bool" where
  "awake r = (row_state r = JNum (Fin 0))"

text \<open>
  The loop \<open>for (let i = 0; i < rows.length; i++)\<close>. Its state is \<open>start\<close>, the row
  before the current one (\<open>rows[i - 1]\<close>, absent when \<open>i = 0\<close>) and \<open>results\<close>.
  Reading \<open>rows[i - 1].date\<close> with no such row would throw a TypeError.
\<close>

fun scanRows ::
  "interval \<Rightarrow> string \<Rightarrow> EpochRow option \<Rightarrow> EpochRow option \<Rightarrow> EpochRow list
     \<Rightarrow> WakeEpisode list \<Rightarrow> js_error + (EpochRow option \<times> WakeEpisode list)"
where
  "scanRows night i start prev [] results = Inr (start, results)"
| "scanRows night i start prev (r # rest) results =
     (if awake r
      then scanRows night i (case start of None \<Rightarrow> Some r | Some s \<Rightarrow> Some s) (Some r)
             rest results
      else (case start of
              None \<Rightarrow> scanRows night i None (Some r) rest results
            | Some s \<Rightarrow>
                (case prev of
                   None \<Rightarrow> Inl (TypeError ''rows[i - 1] is undefined'')
                 | Some p \<Rightarrow>
                     scanRows night i None (Some r) rest
                       (pushEpisode night i (row_date s) (row_date p) results))))"

text \<open>
  The loop over the sorted rows of a night followed by the block "Check if wake
  extends to end", which closes a run that is still open with the date of the last
  row, \<open>rows[rows.length - 1]\<close>.
\<close>

definition scanNight ::
  "interval \<Rightarrow> string \<Rightarrow> EpochRow list \<Rightarrow> WakeEpisode list \<Rightarrow> js_error + WakeEpisode list"
where
  "scanNight night i rows results =
     (case scanRows night i None None rows results of
        Inl e \<Rightarrow> Inl e
      | Inr (start, results') \<Rightarrow>
          (case start of
             None \<Rightarrow> Inr results'
           | Some s \<Rightarrow>
               (if rows = [] then Inl (TypeError ''rows[rows.length - 1] is undefined'')
                else Inr (pushEpisode night i (row_date s) (row_date (last rows))
                            results'))))"

text \<open>The body of \<open>Object.keys(grouped).forEach\<close> for a night that has an interval.\<close>

definition nightEpisodes ::
  "interval \<Rightarrow> string \<Rightarrow> EpochRow list \<Rightarrow> WakeEpisode list \<Rightarrow> js_error + WakeEpisode list"
where
  "nightEpisodes night i grouped results =
     scanNight night i (sort_key row_timestamp grouped) results"

text \<open>
  The reading of the specification for a run of awake rows that reaches the end of
  the rows: its provisional end is the end of the night.
\<close>

definition trailingEpisode_spec :: "interval \<Rightarrow> string \<Rightarrow> EpochRow list \<Rightarrow> WakeEpisode list" where
  "trailingEpisode_spec night i run =
     pushEpisode night i (row_date (hd run)) (night_end night) []"

text \<open>
  The enumeration order of the own keys of an object, given the order in which they
  were inserted: the canonical array indices first, by value, then the other keys.
\<close>

definition is_array_index :: "string \<Rightarrow> bool" where
  "is_array_index k =
     (k \<noteq> [] \<and> list_all is_digit k \<and> (k = ''0'' \<or> hd k \<noteq> CHR ''0'')
        \<and> digits_value k < 4294967295)"

definition key_order :: "string list \<Rightarrow> string list" where
  "key_order ks =
     sort_key digits_value (filter is_array_index ks) @ filter (\<lambda>k. \<not> is_array_index k) ks"

definition first_occurrences :: "'a list \<Rightarrow> 'a list" where
  "first_occurrences xs = rev (remdups (rev xs))"

definition nightIntervals :: "host \<Rightarrow> NightRow list \<Rightarrow> string \<Rightarrow> interval option" where
  "nightIntervals h summaryData =
     map_of (rev (map (\<lambda>d. (to_string h (js_or (nr_w_id d) (nr_id d)),
                             \<lparr>night_start = nr_startdate_utc d,
                              night_end = nr_enddate_utc d\<rparr>)) summaryData))"

fun nightsLoop ::
  "host \<Rightarrow> (string \<Rightarrow> interval option) \<Rightarrow> EpochRow list \<Rightarrow> string list
     \<Rightarrow> WakeEpisode list \<Rightarrow> js_error + WakeEpisode list"
where
  "nightsLoop h intervals data [] results = Inr results"
| "nightsLoop h intervals data (i # ids) results =
     (case intervals i of
        None \<Rightarrow> nightsLoop h intervals data ids results
      | Some night \<Rightarrow>
          (case nightEpisodes night i
                  (filter (\<lambda>row. to_string h (row_id row) = i) data) results of
             Inl e \<Rightarrow> Inl e
           | Inr results' \<Rightarrow> nightsLoop h intervals data ids results'))"

definition findWakeEpisodes ::
  "host \<Rightarrow> EpochRow list \<Rightarrow> NightRow list \<Rightarrow> js_error + WakeEpisode list"
where
  "findWakeEpisodes h data summaryData =
     (if length data = 0 then Inr []
      else nightsLoop h (nightIntervals h summaryData) data
             (key_order (first_occurrences (map (\<lambda>row. to_string h (row_id row)) data))) [])"

section \<open>Timing Layout Builder\<close>

text \<open>The remainder operator \<open>%\<close>: the result has the sign of the dividend.\<close>

definition js_rem :: "int \<Rightarrow> int \<Rightarrow> int" where
  "js_rem a b = sgn a * (\<bar>a\<bar> mod \<bar>b\<bar>)"

definition minutes_from_noon :: "int \<Rightarrow> int \<Rightarrow> int" where
  "minutes_from_noon hour minute = js_rem (((hour * 60 + minute) - 720) + 1440) 1440"

text \<open>
  The \<open>timeZone\<close> option as \<open>Intl.DateTimeFormat\<close> reads it: \<open>undefined\<close> selects the
  default zone, any other value is converted to a string. The zone \<open>UTC\<close> has
  offset 0; an unknown name makes the constructor throw.
\<close>

definition zone_name :: "host \<Rightarrow> jsval \<Rightarrow> string" where
  "zone_name h tz = (case tz of JUndefined \<Rightarrow> default_tz h | JStr s \<Rightarrow> s | v \<Rightarrow> to_string h v)"

definition zone_offset :: "host \<Rightarrow> string \<Rightarrow> int \<Rightarrow> int option" where
  "zone_offset h z t = (if z = ''UTC'' then Some 0 else tz_offset h z t)"

text \<open>The \<open>hour\<close> and \<open>minute\<close> parts of an instant (in ms) at an offset (in s), cycle h23.\<close>

definition hour_minute :: "int \<Rightarrow> int \<Rightarrow> int \<times> int" where
  "hour_minute t off = (let secs = t div 1000 + off in ((secs div 3600) mod 24, (secs div 60) mod 60))"

definition mins_from_noon_js :: "host \<Rightarrow> bool \<Rightarrow> jsval \<Rightarrow> jsval \<Rightarrow> int option" where
  "mins_from_noon_js h REPORT_APPLY_TIMEZONE date timeZone =
     (case date of
        JDate (Some t) \<Rightarrow>
          (let tz = (if REPORT_APPLY_TIMEZONE then timeZone else JStr ''UTC'')
           in case zone_offset h (zone_name h tz) t of
                None \<Rightarrow> None
              | Some off \<Rightarrow>
                  (let (hour, minute) = hour_minute t off
                   in Some (minutes_from_noon hour minute)))
      | _ \<Rightarrow> None)"

text \<open>
  \<open>formatInTimeZoneJS\<close> with the day-and-month options: \<open>null\<close> for a value that is
  no valid date, and the UTC text when the zone is rejected.
\<close>

definition formatInTimeZoneJS :: "host \<Rightarrow> bool \<Rightarrow> jsval \<Rightarrow> jsval \<Rightarrow> string option" where
  "formatInTimeZoneJS h REPORT_APPLY_TIMEZONE date timeZone =
     (case date of
        JDate (Some t) \<Rightarrow>
          (let tz = (if REPORT_APPLY_TIMEZONE then timeZone else JStr ''UTC'')
           in case zone_offset h (zone_name h tz) t of
                None \<Rightarrow> Some (day_label h ''UTC'' t)
              | Some off \<Rightarrow> Some (day_label h (zone_name h tz) t))
      | _ \<Rightarrow> None)"

text \<open>
  One bar of the timing plot. The literal annotation values that are copied from the
  row for the side panel are left out.
\<close>

record TimingRecord =
  tr_startdate_utc :: jsval
  tr_enddate_utc :: jsval
  tr_timezone :: jsval
  tr_sleep_latency :: jsval
  tr_id :: string
  tr_y :: string
  tr_base :: int
  tr_duration :: int
  tr_start_min_from_noon :: int

definition timingRecord :: "host \<Rightarrow> bool \<Rightarrow> obj \<Rightarrow> TimingRecord option" where
  "timingRecord h REPORT_APPLY_TIMEZONE row =
     (let timezone = js_or (get row ''w_timezone'') (get row ''timezone'');
          yLabel = formatInTimeZoneJS h REPORT_APPLY_TIMEZONE (get row ''enddate_utc'') timezone;
          startMin = mins_from_noon_js h REPORT_APPLY_TIMEZONE (get row ''startdate_utc'') timezone;
          endMinRaw = mins_from_noon_js h REPORT_APPLY_TIMEZONE (get row ''enddate_utc'') timezone
      in case (startMin, endMinRaw, yLabel) of
           (Some startMin, Some endMinRaw, Some yLabel) \<Rightarrow>
             (let endMin = (if endMinRaw < startMin then endMinRaw + 1440 else endMinRaw)
              in Some \<lparr>tr_startdate_utc = get row ''startdate_utc'',
                       tr_enddate_utc = get row ''enddate_utc'',
                       tr_timezone = timezone,
                       tr_sleep_latency = get row ''sleep_latency'',
                       tr_id = to_string h (js_or (get row ''w_id'') (get row ''id'')),
                       tr_y = yLabel,
                       tr_base = startMin,
                       tr_duration = endMin - startMin,
                       tr_start_min_from_noon = startMin\<rparr>)
         | _ \<Rightarrow> None)"

fun valid_date :: "jsval \<Rightarrow> bool" where
  "valid_date (JDate (Some t)) = True"
| "valid_date _ = False"

fun time_value :: "jsval \<Rightarrow> int" where
  "time_value (JDate (Some t)) = t"
| "time_value _ = 0"

text \<open>
  \<open>plotData\<close>: the rows with a valid end date, ordered by it, mapped to bars, the
  \<open>null\<close> results removed.
\<close>

definition plotData :: "host \<Rightarrow> bool \<Rightarrow> obj list \<Rightarrow> TimingRecord list" where
  "plotData h REPORT_APPLY_TIMEZONE summaryData =
     List.map_filter (timingRecord h REPORT_APPLY_TIMEZONE)
       (sort_key (\<lambda>row. time_value (get row ''enddate_utc''))
          (filter (\<lambda>d. valid_date (get d ''enddate_utc'')) summaryData))"

text \<open>A host that knows the zone \<open>UTC\<close> only.\<close>

definition utc_host :: host where
  "utc_host = \<lparr>date_parse = (\<lambda>s. NaN), string_to_number = (\<lambda>s. NaN),
                json_parse = (\<lambda>s. None), tz_offset = (\<lambda>z t. None), default_tz = ''UTC'',
                to_string = (\<lambda>v. case v of JStr s \<Rightarrow> s | _ \<Rightarrow> []),
                day_label = (\<lambda>z t. [])\<rparr>"

section \<open>Statistics Engine\<close>

definition ALL_DATA_FIELDS :: "string list" where
  "ALL_DATA_FIELDS =
     [''total_timeinbed'', ''total_sleep_time'', ''asleepduration'',
      ''lightsleepduration'', ''remsleepduration'', ''deepsleepduration'',
      ''sleep_efficiency'', ''sleep_latency'', ''wakeup_latency'',
      ''wakeupduration'', ''waso'',
      ''nb_rem_episodes'', ''apnea_hypopnea_index'', ''withings_index'',
      ''durationtosleep'', ''durationtowakeup'', ''out_of_bed_count'',
      ''hr_average'', ''hr_min'', ''hr_max'',
      ''rr_average'', ''rr_min'', ''rr_max'',
      ''snoring'', ''snoringepisodecount'', ''sleep_score'',
      ''night_events'', ''mvt_score_avg'', ''mvt_active_duration'',
      ''chest_movement_rate_average'', ''chest_movement_rate_min'',
      ''chest_movement_rate_max'',
      ''breathing_sounds'', ''breathing_sounds_episode_count'']"

definition DURATION_FIELDS_IN_SECONDS :: "string list" where
  "DURATION_FIELDS_IN_SECONDS =
     [''total_timeinbed'', ''total_sleep_time'', ''asleepduration'',
      ''lightsleepduration'', ''remsleepduration'', ''deepsleepduration'',
      ''sleep_latency'', ''wakeup_latency'', ''wakeupduration'', ''waso'',
      ''durationtosleep'', ''durationtowakeup'', ''snoring'', ''mvt_active_duration'']"

definition EFFICIENCY_FIELDS :: "string list" where
  "EFFICIENCY_FIELDS = [''sleep_efficiency'']"

definition fieldDisplayNameMap :: "(string \<times> string) list" where
  "fieldDisplayNameMap =
     [(''total_timeinbed'', ''Total Time in Bed (hours)''),
      (''total_sleep_time'', ''Total Sleep Time (hours)''),
      (''asleepduration'', ''Asleep Duration (hours)''),
      (''lightsleepduration'', ''Light Sleep (hours)''),
      (''remsleepduration'', ''REM Sleep (hours)''),
      (''deepsleepduration'', ''Deep Sleep (hours)''),
      (''sleep_efficiency'', ''Sleep Efficiency (%)''),
      (''sleep_latency'', ''Time to Fall Asleep (minutes)''),
      (''wakeup_latency'', ''Time to Wake Up (minutes)''),
      (''wakeupduration'', ''Wakeup Duration (minutes)''),
      (''wakeupcount'', ''Wakeups (count)''),
      (''waso'', ''Wake After Sleep Onset (WASO) (minutes)''),
      (''nb_rem_episodes'', ''REM Episodes (count)''),
      (''apnea_hypopnea_index'', ''Apnea-Hypopnea Index (events/hour)''),
      (''withings_index'', ''Withings Sleep Index''),
      (''durationtosleep'', ''Time to Fall Asleep (minutes)''),
      (''durationtowakeup'', ''Time to Wake Up (minutes)''),
      (''out_of_bed_count'', ''Out of Bed (count)''),
      (''hr_average'', ''Average Heart Rate (bpm)''),
      (''hr_min'', ''Minimum Heart Rate (bpm)''),
      (''hr_max'', ''Maximum Heart Rate (bpm)''),
      (''rr_average'', ''Average Respiratory Rate (breaths/min)''),
      (''rr_min'', ''Minimum Respiratory Rate (breaths/min)''),
      (''rr_max'', ''Maximum Respiratory Rate (breaths/min)''),
      (''snoring'', ''Snoring Duration (minutes)''),
      (''snoringepisodecount'', ''Snoring Episodes (count)''),
      (''sleep_score'', ''Sleep Score''),
      (''night_events'', ''Night Events (count)''),
      (''mvt_score_avg'', ''Average Movement Score''),
      (''mvt_active_duration'', ''Movement Duration (minutes)''),
      (''chest_movement_rate_average'', ''Average Chest Movement Rate (breaths/min)''),
      (''chest_movement_rate_min'', ''Minimum Chest Movement Rate (breaths/min)''),
      (''chest_movement_rate_max'', ''Maximum Chest Movement Rate (breaths/min)''),
      (''breathing_sounds'', ''Breathing Sounds Intensity''),
      (''breathing_sounds_episode_count'', ''Breathing Sounds Episodes (count)'')]"

text \<open>
  The fallback name of a field without an entry: underscores become spaces and the
  first letter of every word is put in upper case.
\<close>

definition is_word_char :: "char \<Rightarrow> bool" where
  "is_word_char c =
     (let n = (of_char c :: nat)
      in (48 \<le> n \<and> n \<le> 57) \<or> (65 \<le> n \<and> n \<le> 90) \<or> (97 \<le> n \<and> n \<le> 122) \<or> n = 95)"

definition toUpperCase :: "char \<Rightarrow> char" where
  "toUpperCase c =
     (let n = (of_char c :: nat) in if 97 \<le> n \<and> n \<le> 122 then char_of (n - 32) else c)"

fun capitalizeWords :: "bool \<Rightarrow> string \<Rightarrow> string" where
  "capitalizeWords inWord [] = []"
| "capitalizeWords inWord (c # cs) =
     (if is_word_char c \<and> \<not> inWord then toUpperCase c else c)
       # capitalizeWords (is_word_char c) cs"

definition displayName :: "string \<Rightarrow> string" where
  "displayName field =
     (case map_of fieldDisplayNameMap field of
        Some name \<Rightarrow> name
      | None \<Rightarrow>
          capitalizeWords False (map (\<lambda>c. if c = CHR ''_'' then CHR '' '' else c) field))"

text \<open>\<open>s.includes(t)\<close>\<close>

fun includes_str :: "string \<Rightarrow> string \<Rightarrow> bool" where
  "includes_str [] t = (t = [])"
| "includes_str (c # cs) t = (take (length t) (c # cs) = t \<or> includes_str cs t)"

text \<open>Arithmetic on numbers, with the IEEE rules for the infinities and NaN.\<close>

fun num_add :: "jsnum \<Rightarrow> jsnum \<Rightarrow> jsnum" where
  "num_add (Fin a) (Fin b) = Fin (a + b)"
| "num_add NaN _ = NaN"
| "num_add _ NaN = NaN"
| "num_add PosInf NegInf = NaN"
| "num_add NegInf PosInf = NaN"
| "num_add PosInf _ = PosInf"
| "num_add NegInf _ = NegInf"
| "num_add _ PosInf = PosInf"
| "num_add _ NegInf = NegInf"

fun num_neg :: "jsnum \<Rightarrow> jsnum" where
  "num_neg (Fin a) = Fin (- a)"
| "num_neg PosInf = NegInf"
| "num_neg NegInf = PosInf"
| "num_neg NaN = NaN"

definition num_sub :: "jsnum \<Rightarrow> jsnum \<Rightarrow> jsnum" where
  "num_sub a b = num_add a (num_neg b)"

fun num_sq :: "jsnum \<Rightarrow> jsnum" where
  "num_sq (Fin a) = Fin (a * a)"
| "num_sq NaN = NaN"
| "num_sq _ = PosInf"

fun num_sqrt :: "jsnum \<Rightarrow> jsnum" where
  "num_sqrt (Fin a) = (if a < 0 then NaN else Fin (sqrt a))"
| "num_sqrt PosInf = PosInf"
| "num_sqrt _ = NaN"

fun num_less :: "jsnum \<Rightarrow> jsnum \<Rightarrow> bool" where
  "num_less (Fin a) (Fin b) = (a < b)"
| "num_less NaN _ = False"
| "num_less _ NaN = False"
| "num_less NegInf b = (b \<noteq> NegInf)"
| "num_less a PosInf = (a \<noteq> PosInf)"
| "num_less _ _ = False"

text \<open>\<open>Math.min(...values)\<close> and \<open>Math.max(...values)\<close> on a list without NaN.\<close>

definition Math_min :: "jsnum list \<Rightarrow> jsnum" where
  "Math_min vs = foldl (\<lambda>m v. if num_less v m then v else m) PosInf vs"

definition Math_max :: "jsnum list \<Rightarrow> jsnum" where
  "Math_max vs = foldl (\<lambda>m v. if num_less m v then v else m) NegInf vs"

definition mean :: "jsnum list \<Rightarrow> jsnum" where
  "mean arr =
     (if length arr > 0 then num_div (foldl num_add (Fin 0) arr) (real (length arr))
      else Fin 0)"

definition std :: "jsnum list \<Rightarrow> jsnum \<Rightarrow> jsnum" where
  "std arr avg =
     (if length arr > 0
      then (let sq = map (\<lambda>x. num_sq (num_sub x avg)) arr
            in num_sqrt (num_div (foldl num_add (hd sq) (tl sq)) (real (length arr))))
      else Fin 0)"

text \<open>
  \<open>renderMetricsTable\<close>: the value read from a row for a metric field, and the list
  of values that is aggregated.
\<close>

definition metricValue :: "obj \<Rightarrow> string \<Rightarrow> jsval" where
  "metricValue row field =
     (if get row (''w_'' @ field) \<noteq> JUndefined then get row (''w_'' @ field)
      else get row field)"

fun number_not_NaN :: "jsval \<Rightarrow> bool" where
  "number_not_NaN (JNum n) = (n \<noteq> NaN)"
| "number_not_NaN _ = False"

fun the_number :: "jsval \<Rightarrow> jsnum" where
  "the_number (JNum n) = n"
| "the_number _ = NaN"

definition metricValues :: "obj list \<Rightarrow> string \<Rightarrow> jsnum list" where
  "metricValues validData field =
     map the_number (filter number_not_NaN (map (\<lambda>row. metricValue row field) validData))"

definition convertValues :: "string \<Rightarrow> jsnum list \<Rightarrow> jsnum list" where
  "convertValues field vals =
     (if field \<in> set DURATION_FIELDS_IN_SECONDS
      then (if includes_str (displayName field) ''(hours)'' then map (\<lambda>v. num_div v 3600) vals
            else map (\<lambda>v. num_div v 60) vals)
      else if field \<in> set EFFICIENCY_FIELDS then map (\<lambda>v. num_mul v 100) vals
      else vals)"

record MetricAggregate =
  ma_field :: string
  ma_avg :: jsnum
  ma_stdev :: jsnum
  ma_minVal :: jsnum
  ma_maxVal :: jsnum

text \<open>One pass of \<open>ALL_DATA_FIELDS.forEach\<close>: no table row when no value is left.\<close>

definition metricAggregate :: "obj list \<Rightarrow> string \<Rightarrow> MetricAggregate option" where
  "metricAggregate validData field =
     (let vals = metricValues validData field
      in if length vals = 0 then None
         else (let vals' = convertValues field vals; avg = mean vals'
               in Some \<lparr>ma_field = field, ma_avg = avg, ma_stdev = std vals' avg,
                        ma_minVal = Math_min vals', ma_maxVal = Math_max vals'\<rparr>))"

definition renderMetricsTable :: "obj list \<Rightarrow> MetricAggregate list" where
  "renderMetricsTable data =
     (let validData = filter (\<lambda>d. valid_date (get d ''enddate_utc'')) data
      in if length validData = 0 then []
         else List.map_filter (metricAggregate validData) ALL_DATA_FIELDS)"

text \<open>
  \<open>renderSummaryStats\<close>: the four lists behind the headline figures. An arithmetic
  operator converts its operand with \<open>Number\<close>, so the quotient or product is always a
  number and the test \<open>v !== null\<close> on it always holds.
\<close>

definition summaryValue :: "obj \<Rightarrow> string \<Rightarrow> jsval" where
  "summaryValue d field = js_or (get d (''w_'' @ field)) (get d field)"

definition durations :: "host \<Rightarrow> obj list \<Rightarrow> jsnum list" where
  "durations h data =
     filter (\<lambda>v. v \<noteq> NaN)
       (map (\<lambda>d. num_div (to_number h (summaryValue d ''total_sleep_time'')) 3600) data)"

definition efficiencies :: "host \<Rightarrow> obj list \<Rightarrow> jsnum list" where
  "efficiencies h data =
     filter (\<lambda>v. v \<noteq> NaN)
       (map (\<lambda>d. num_mul (to_number h (summaryValue d ''sleep_efficiency'')) 100) data)"

definition ahis :: "host \<Rightarrow> obj list \<Rightarrow> jsval list" where
  "ahis h data =
     filter (\<lambda>v. v \<noteq> JNull \<and> to_number h v \<noteq> NaN)
       (map (\<lambda>d. summaryValue d ''apnea_hypopnea_index'') data)"

definition snores :: "host \<Rightarrow> obj list \<Rightarrow> jsnum list" where
  "snores h data =
     filter (\<lambda>v. v \<noteq> NaN)
       (map (\<lambda>d. num_div (to_number h (summaryValue d ''snoring'')) 60) data)"

section \<open>Severity classification\<close>

record severity =
  label :: string
  color :: string

definition getOSASeverityAndColor :: "jsnum \<Rightarrow> severity" where
  "getOSASeverityAndColor ahi =
     (if num_le ahi 5 then \<lparr>label = ''None/Minimal'', color = ''green''\<rparr>
      else if num_le ahi 15 then \<lparr>label = ''Mild'', color = ''yellow''\<rparr>
      else if num_le ahi 30 then \<lparr>label = ''Moderate'', color = ''orange''\<rparr>
      else \<lparr>label = ''Severe'', color = ''red''\<rparr>)"

definition getSnoringSeverityAndColor :: "jsnum \<Rightarrow> severity" where
  "getSnoringSeverityAndColor snoring =
     (if num_eq snoring 0 then \<lparr>label = ''No Snoring'', color = ''green''\<rparr>
      else if num_le snoring 15 then \<lparr>label = ''Mild'', color = ''yellow''\<rparr>
      else if num_le snoring 30 then \<lparr>label = ''Moderate'', color = ''goldenrod''\<rparr>
      else if num_le snoring 60 then \<lparr>label = ''Heavy'', color = ''orange''\<rparr>
      else \<lparr>label = ''Severe'', color = ''red''\<rparr>)"

section \<open>Verified properties\<close>

subsection \<open>Severity classification\<close>

lemma osa_label_fin:
  "label (getOSASeverityAndColor (Fin x)) =
     (if x \<le> 5 then ''None/Minimal'' else if x \<le> 15 then ''Mild''
      else if x \<le> 30 then ''Moderate'' else ''Severe'')"
  by (simp add: getOSASeverityAndColor_def)

lemma snoring_label_fin:
  "label (getSnoringSeverityAndColor (Fin x)) =
     (if x = 0 then ''No Snoring'' else if x \<le> 15 then ''Mild''
      else if x \<le> 30 then ''Moderate'' else if x \<le> 60 then ''Heavy'' else ''Severe'')"
  by (simp add: getSnoringSeverityAndColor_def)

text \<open>
  C9. For every numeric input the severity classifiers realise the banded tables:
  an AHI up to 5 is none/minimal, up to 15 mild, up to 30 moderate and above 30
  severe, so that 2, 10, 22 and 40 are classified none/minimal, mild, moderate and
  severe; snoring minutes are none at 0, mild up to 15, moderate up to 30, heavy up
  to 60 and severe above 60. The labels are spelled as the code spells them; the
  two infinities fall into the outermost bands.
\<close>

theorem severity_bands:
  "(label (getOSASeverityAndColor (Fin x)) = ''None/Minimal'' \<longleftrightarrow> x \<le> 5) \<and>
   (label (getOSASeverityAndColor (Fin x)) = ''Mild'' \<longleftrightarrow> 5 < x \<and> x \<le> 15) \<and>
   (label (getOSASeverityAndColor (Fin x)) = ''Moderate'' \<longleftrightarrow> 15 < x \<and> x \<le> 30) \<and>
   (label (getOSASeverityAndColor (Fin x)) = ''Severe'' \<longleftrightarrow> 30 < x) \<and>
   (label (getSnoringSeverityAndColor (Fin y)) = ''No Snoring'' \<longleftrightarrow> y = 0) \<and>
   (label (getSnoringSeverityAndColor (Fin y)) = ''Mild'' \<longleftrightarrow> y \<noteq> 0 \<and> y \<le> 15) \<and>
   (label (getSnoringSeverityAndColor (Fin y)) = ''Moderate'' \<longleftrightarrow> 15 < y \<and> y \<le> 30) \<and>
   (label (getSnoringSeverityAndColor (Fin y)) = ''Heavy'' \<longleftrightarrow> 30 < y \<and> y \<le> 60) \<and>
   (label (getSnoringSeverityAndColor (Fin y)) = ''Severe'' \<longleftrightarrow> 60 < y) \<and>
   map (\<lambda>a. label (getOSASeverityAndColor (Fin a))) [2, 10, 22, 40]
     = [''None/Minimal'', ''Mild'', ''Moderate'', ''Severe''] \<and>
   label (getOSASeverityAndColor PosInf) = ''Severe'' \<and>
   label (getOSASeverityAndColor NegInf) = ''None/Minimal'' \<and>
   label (getSnoringSeverityAndColor PosInf) = ''Severe'' \<and>
   label (getSnoringSeverityAndColor NegInf) = ''Mild''"
  by (simp add: osa_label_fin snoring_label_fin getOSASeverityAndColor_def
        getSnoringSeverityAndColor_def)

text \<open>The bands at an AHI of 22 and at 45 minutes of snoring.\<close>

theorem severity_bands_witness:
  "label (getOSASeverityAndColor (Fin 22)) = ''Moderate'' \<and>
   label (getSnoringSeverityAndColor (Fin 45)) = ''Heavy''"
  using severity_bands [of 22 45] by simp

subsection \<open>Summary Normalizer\<close>

lemma get_assign_Cons:
  "get (assign row ((k, v) # props)) k' = get (assign (AList.update k v row) props) k'"
  by (simp add: assign_def)

lemma get_update: "get (AList.update k v row) k' = (if k' = k then v else get row k')"
  by (simp add: get_def update_conv')

lemma get_assign:
  "get (assign row props) k =
     (case map_of (rev props) k of None \<Rightarrow> get row k | Some v \<Rightarrow> v)"
proof (induction props arbitrary: row)
  case Nil
  then show ?case by (simp add: assign_def)
next
  case (Cons p props)
  obtain a b where p: "p = (a, b)" by (cases p)
  show ?case
    unfolding p get_assign_Cons Cons.IH
    by (auto simp: get_update split: option.splits)
qed

lemma out_total_sleep_time_hours:
  "get (processSummaryRow h lab rawRow) ''total_sleep_time_hours'' =
     (case get (flatRow rawRow) ''total_sleep_time'' of
        JNum n \<Rightarrow> JNum (num_div n 3600) | _ \<Rightarrow> JNull)"
  by (simp add: processSummaryRow_def Let_def get_assign)

lemma out_sleep_efficiency_percent:
  "get (processSummaryRow h lab rawRow) ''sleep_efficiency_percent'' =
     (case get (flatRow rawRow) ''sleep_efficiency'' of
        JNum n \<Rightarrow> JNum (num_mul n 100) | _ \<Rightarrow> JNull)"
  by (simp add: processSummaryRow_def Let_def get_assign)

lemma out_sources_kept:
  "get (processSummaryRow h lab rawRow) ''total_sleep_time'' = get (flatRow rawRow) ''total_sleep_time''"
  "get (processSummaryRow h lab rawRow) ''sleep_efficiency'' = get (flatRow rawRow) ''sleep_efficiency''"
  by (simp_all add: processSummaryRow_def Let_def get_assign)

lemma out_apnea:
  "get (processSummaryRow h lab rawRow) ''apnea_hypopnea_index'' =
     (let n = to_number h (get (flatRow rawRow) ''apnea_hypopnea_index'')
      in if n \<noteq> NaN \<and> num_ge0 n then JNum n else JNull)"
  by (simp add: processSummaryRow_def Let_def get_assign)


text \<open>
  C7. For every row that the Summary Normalizer produces, \<open>total_sleep_time_hours\<close>
  is \<open>total_sleep_time / 3600\<close> and \<open>sleep_efficiency_percent\<close> is
  \<open>sleep_efficiency * 100\<close> whenever the source value is a number, and each derived
  field is \<open>null\<close> exactly when its source value is not a number. The source values
  are those of the row after the nested \<open>data\<close> object has been merged in; the
  normalized row still carries them.
\<close>

theorem derived_fields:
  assumes "i < length summarySeries"
  shows
    "(let out = processSummaryData h summarySeries lab ! i;
          total_sleep_time = get (flatRow (summarySeries ! i)) ''total_sleep_time'';
          sleep_efficiency = get (flatRow (summarySeries ! i)) ''sleep_efficiency''
      in get out ''total_sleep_time'' = total_sleep_time
         \<and> get out ''sleep_efficiency'' = sleep_efficiency
         \<and> get out ''total_sleep_time_hours'' =
             (case total_sleep_time of JNum n \<Rightarrow> JNum (num_div n 3600) | _ \<Rightarrow> JNull)
         \<and> get out ''sleep_efficiency_percent'' =
             (case sleep_efficiency of JNum n \<Rightarrow> JNum (num_mul n 100) | _ \<Rightarrow> JNull)
         \<and> (get out ''total_sleep_time_hours'' = JNull \<longleftrightarrow> \<not> is_number total_sleep_time)
         \<and> (get out ''sleep_efficiency_percent'' = JNull \<longleftrightarrow> \<not> is_number sleep_efficiency))"
proof -
  have row: "processSummaryData h summarySeries lab ! i = processSummaryRow h lab (summarySeries ! i)"
    using assms by (simp add: processSummaryData_def)
  show ?thesis
    unfolding Let_def row out_total_sleep_time_hours out_sleep_efficiency_percent out_sources_kept
    by (auto split: jsval.splits)
qed

text \<open>
  A total sleep time of 25200 s and an efficiency of 0.89 give 7 hours and 89 percent.
\<close>

theorem derived_fields_witness:
  "(let out = processSummaryData utc_host
                [[(''id'', JNum (Fin 1)), (''total_sleep_time'', JNum (Fin 25200)),
                  (''sleep_efficiency'', JNum (Fin (89 / 100)))]] ''lab'' ! 0
    in get out ''total_sleep_time_hours'' = JNum (Fin 7)
       \<and> get out ''sleep_efficiency_percent'' = JNum (Fin 89))"
proof -
  let ?raw = "[(''id'', JNum (Fin 1)), (''total_sleep_time'', JNum (Fin 25200)),
               (''sleep_efficiency'', JNum (Fin (89 / 100)))]"
  have len: "(0::nat) < length [?raw]" by simp
  have t: "get (flatRow ?raw) ''total_sleep_time'' = JNum (Fin 25200)"
    by (simp add: flatRow_def assign_def get_def js_or_def AList.delete_eq)
  have e: "get (flatRow ?raw) ''sleep_efficiency'' = JNum (Fin (89 / 100))"
    by (simp add: flatRow_def assign_def get_def js_or_def AList.delete_eq)
  show ?thesis
    using derived_fields [OF len, of utc_host "''lab''"]
    by (simp add: Let_def t e)
qed

text \<open>
  C8. The normalized \<open>apnea_hypopnea_index\<close> should be \<open>null\<close> exactly when the source
  value is negative, not a number or missing. A source value of \<open>null\<close> is converted
  by \<open>Number\<close> to 0, passes the test \<open>>= 0\<close>, and is stored as the number 0.
\<close>

theorem apnea_null_becomes_zero:
  "get (processSummaryRow h lab [(''id'', JNum (Fin 1)), (''apnea_hypopnea_index'', JNull)])
     ''apnea_hypopnea_index'' = JNum (Fin 0)"
proof -
  have "get (flatRow [(''id'', JNum (Fin 1)), (''apnea_hypopnea_index'', JNull)])
          ''apnea_hypopnea_index'' = JNull"
    by (simp add: flatRow_def assign_def get_def js_or_def AList.delete_eq)
  then show ?thesis by (simp add: out_apnea)
qed

text \<open>On a source value that is a number the field behaves as described.\<close>

lemma apnea_of_number:
  "get (flatRow rawRow) ''apnea_hypopnea_index'' = JNum n \<Longrightarrow>
   get (processSummaryRow h lab rawRow) ''apnea_hypopnea_index'' =
     (if n \<noteq> NaN \<and> num_ge0 n then JNum n else JNull)"
  by (simp add: out_apnea)

subsection \<open>Epoch Flattener\<close>

text \<open>Each loop only appends to \<open>allEpochs\<close>.\<close>

lemma timestampsLoop_acc:
  "timestampsLoop sid info item keys acc =
     acc @ List.map_filter (\<lambda>k. map_option (epochRow sid info item k) (parseInt k)) keys"
  by (induction keys arbitrary: acc) (auto split: option.splits)

lemma seriesItemStep_acc:
  "seriesItemStep sid info item acc = acc @ seriesItemStep sid info item []"
  unfolding seriesItemStep_def timestampsLoop_acc [of _ _ _ _ acc]
  by (simp add: timestampsLoop_acc [of _ _ _ _ "[]"] split: option.splits)

lemma seriesLoop_acc:
  "seriesLoop sid info items acc =
     acc @ concat (map (\<lambda>item. seriesItemStep sid info item []) items)"
proof (induction items arbitrary: acc)
  case Nil
  then show ?case by simp
next
  case (Cons item items)
  show ?case
    by (simp add: Cons.IH seriesItemStep_acc [of _ _ _ acc])
qed

lemma recordsLoop_acc:
  "recordsLoop smap recs acc =
     acc @ concat (map (\<lambda>r. case smap (sleep_id r) of
                                 None \<Rightarrow> []
                               | Some info \<Rightarrow> seriesLoop (sleep_id r) info (series r) []) recs)"
proof (induction recs arbitrary: acc)
  case Nil
  then show ?case by simp
next
  case (Cons r recs)
  show ?case
    by (simp add: Cons.IH seriesLoop_acc [of _ _ _ acc] seriesLoop_acc [of _ _ _ "[]"]
          split: option.splits)
qed

lemma recordsLoop_mem:
  "e \<in> set (recordsLoop smap recs []) \<Longrightarrow>
     \<exists>r \<in> set recs. \<exists>info. smap (sleep_id r) = Some info
        \<and> e \<in> set (seriesLoop (sleep_id r) info (series r) [])"
proof (induction recs)
  case Nil
  then show ?case by simp
next
  case (Cons r recs)
  show ?case
  proof (cases "smap (sleep_id r)")
    case None
    with Cons show ?thesis by simp
  next
    case (Some info)
    with Cons.prems
    have "e \<in> set (seriesLoop (sleep_id r) info (series r) []) \<or> e \<in> set (recordsLoop smap recs [])"
      by (simp add: recordsLoop_acc [of _ _ "seriesLoop (sleep_id r) info (series r) []"]
            recordsLoop_acc [of _ _ "[]"])
    with Some Cons.IH show ?thesis by auto
  qed
qed

lemma summaryMap_Some_id:
  "summaryMap summaryData k = Some info \<Longrightarrow> \<exists>s \<in> set summaryData. get s ''id'' = k"
  by (auto simp: summaryMap_def dest!: map_of_SomeD)

lemma summaryMap_None_iff:
  "summaryMap summaryData k = None \<longleftrightarrow> (\<forall>s \<in> set summaryData. get s ''id'' \<noteq> k)"
  by (auto simp: summaryMap_def map_of_eq_None_iff image_iff)

lemma seriesItemStep_id:
  "e \<in> set (seriesItemStep sid info item []) \<Longrightarrow> pe_id e = sid"
  by (auto simp: seriesItemStep_def timestampsLoop_acc [of _ _ _ _ "[]"] map_filter_def epochRow_def
           split: option.splits if_splits)

lemma seriesLoop_id:
  "e \<in> set (seriesLoop sid info items []) \<Longrightarrow> pe_id e = sid"
  by (auto simp: seriesLoop_acc [of _ _ _ "[]"] dest: seriesItemStep_id)

text \<open>
  C10. The Epoch Flattener never emits an orphan sample: every row in the output of
  \<open>processEpochData\<close> has the id of some record of \<open>summaryData\<close>, and an epoch record
  whose \<open>sleep_id\<close> matches no summary record contributes nothing, so the output is
  the same as without that record.
\<close>

theorem no_orphan_samples:
  "(\<forall>e \<in> set (processEpochData epochRecords summaryData).
       \<exists>s \<in> set summaryData. get s ''id'' = pe_id e) \<and>
   ((\<forall>s \<in> set summaryData. get s ''id'' \<noteq> sleep_id r) \<longrightarrow>
      processEpochData (Some (pre @ r # post)) summaryData
        = processEpochData (Some (pre @ post)) summaryData)"
proof (intro conjI ballI impI)
  fix e assume e: "e \<in> set (processEpochData epochRecords summaryData)"
  then obtain recs where recs: "epochRecords = Some recs"
    by (cases epochRecords) (auto simp: processEpochData_def)
  from e have "\<exists>r \<in> set recs. \<exists>info. summaryMap summaryData (sleep_id r) = Some info
                  \<and> e \<in> set (seriesLoop (sleep_id r) info (series r) [])"
    unfolding recs processEpochData_def by (auto dest: recordsLoop_mem)
  then obtain r :: SleepEpochRecord and info
    where info: "summaryMap summaryData (sleep_id r) = Some info"
      and "e \<in> set (seriesLoop (sleep_id r) info (series r) [])"
    by blast
  then have "pe_id e = sleep_id r" by (auto dest: seriesLoop_id)
  with summaryMap_Some_id [OF info] show "\<exists>s \<in> set summaryData. get s ''id'' = pe_id e"
    by auto
next
  assume "\<forall>s \<in> set summaryData. get s ''id'' \<noteq> sleep_id r"
  then have "summaryMap summaryData (sleep_id r) = None"
    by (simp add: summaryMap_None_iff)
  then show "processEpochData (Some (pre @ r # post)) summaryData
               = processEpochData (Some (pre @ post)) summaryData"
    by (simp add: processEpochData_def recordsLoop_acc [of _ _ "[]"])
qed

text \<open>The reference field and the rows of one segment.\<close>

lemma is_candidate_iff:
  "is_candidate item k \<longleftrightarrow> k \<in> set dataFields \<and> (\<exists>m. m \<noteq> [] \<and> get item k = JObj m)"
  by (cases "get item k") (auto simp: is_candidate_def)

lemma refFieldLoop_Some:
  "refFieldLoop item ks = Some f \<Longrightarrow>
     is_candidate item f \<and> f \<in> set ks
       \<and> (\<forall>k \<in> set (takeWhile (\<lambda>k. k \<noteq> f) ks). \<not> is_candidate item k)"
  by (induction ks) (auto split: if_splits)

lemma refFieldLoop_None:
  "refFieldLoop item ks = None \<longleftrightarrow> (\<forall>k \<in> set ks. \<not> is_candidate item k)"
  by (induction ks) auto

lemma fieldValue_eq:
  "fieldValue item k field =
     (case get item field of
        JObj m \<Rightarrow> (case map_of m k of
                     None \<Rightarrow> JNull
                   | Some v \<Rightarrow> if v = JUndefined then JNull else v)
      | _ \<Rightarrow> JNull)"
  by (cases "get item field") (auto simp: fieldValue_def Let_def get_def split: option.splits)

lemma metrics_epochRow:
  "map_of (pe_metrics (epochRow sid info item k t)) field =
     (if field \<in> set dataFields then Some (fieldValue item k field) else None)"
  by (simp add: epochRow_def map_of_map_restrict restrict_map_def)

lemma step_of_refField:
  "refField item = Some f \<Longrightarrow>
   seriesItemStep sid info item [] =
     List.map_filter (\<lambda>k. map_option (epochRow sid info item k) (parseInt k))
       (own_keys (get item f))"
proof -
  assume f: "refField item = Some f"
  then have "is_candidate item f"
    unfolding refField_def by (blast dest: refFieldLoop_Some)
  then obtain m where "get item f = JObj m"
    by (auto simp: is_candidate_iff)
  with f show ?thesis
    by (simp add: seriesItemStep_def timestampsLoop_acc [of _ _ _ _ "[]"])
qed

lemma map_filter_all_Some:
  "list_all (\<lambda>k. g k \<noteq> None) ks \<Longrightarrow> List.map_filter g ks = map (\<lambda>k. the (g k)) ks"
  by (induction ks) auto

lemma timestamps_map_filter:
  "map pe_timestamp (List.map_filter (\<lambda>k. map_option (epochRow sid info item k) (parseInt k)) ks)
     = List.map_filter parseInt ks"
  by (induction ks) (auto simp: epochRow_def split: option.splits)


text \<open>
  One summary with id 7 and two epoch records, with \<open>sleep_id\<close> 7 and 8: the second
  is dropped and the rows of the first carry the id 7.
\<close>

theorem no_orphan_samples_witness:
  "(let summaryData = [[(''id'', JNum (Fin 7)), (''timezone'', JStr ''Europe/Paris'')]];
        seg = [(''state'', JNum (Fin 1)), (''hr'', JObj [(''100'', JNum (Fin 60))])];
        known = \<lparr>sleep_id = JNum (Fin 7), series = [seg]\<rparr>;
        orphan = \<lparr>sleep_id = JNum (Fin 8), series = [seg]\<rparr>
    in (\<forall>s \<in> set summaryData. get s ''id'' \<noteq> sleep_id orphan)
       \<and> processEpochData (Some ([known] @ orphan # [])) summaryData
           = processEpochData (Some ([known] @ [])) summaryData
       \<and> map pe_id (processEpochData (Some [known]) summaryData) = [JNum (Fin 7)]
       \<and> (\<forall>e \<in> set (processEpochData (Some [known]) summaryData).
             \<exists>s \<in> set summaryData. get s ''id'' = pe_id e))"
proof -
  let ?S = "[[(''id'', JNum (Fin 7)), (''timezone'', JStr ''Europe/Paris'')]]"
  let ?seg = "[(''state'', JNum (Fin 1)), (''hr'', JObj [(''100'', JNum (Fin 60))])]"
  let ?known = "\<lparr>sleep_id = JNum (Fin 7), series = [?seg]\<rparr>"
  let ?orphan = "\<lparr>sleep_id = JNum (Fin 8), series = [?seg]\<rparr>"
  have unmatched: "\<forall>s \<in> set ?S. get s ''id'' \<noteq> sleep_id ?orphan"
    by (simp add: get_def)
  have ids: "map pe_id (processEpochData (Some [?known]) ?S) = [JNum (Fin 7)]"
    by (simp add: processEpochData_def summaryMap_def get_def seriesItemStep_def refField_def
          is_candidate_def dataFields_def parseInt_def is_space_def is_digit_def
          digits_value_def epochRow_def)
  show ?thesis
    using no_orphan_samples [of "Some [?known]" ?S ?orphan "[?known]" "[]"] unmatched ids
    by (simp add: Let_def)
qed

text \<open>
  C6. A segment with a present, non-empty metric field has as its reference field
  the first such field among its keys, and the flattener emits one row for each key
  of that field that \<open>parseInt\<close> reads, in key order and with that integer as
  timestamp; when every key is a timestamp that \<open>parseInt\<close> reads, this is exactly one
  row per key, none extra and none missing (a key that does not parse is skipped by
  the \<open>isNaN\<close> test). Each row carries, for every known metric field, the value of
  that field under the row's key, or \<open>null\<close> when the field has no entry there. A
  segment without a non-empty metric field emits nothing.
\<close>

theorem segment_samples:
  "(refField seriesItem = None \<longrightarrow> seriesItemStep sid info seriesItem [] = []) \<and>
   (refField seriesItem = Some f \<longrightarrow>
      f \<in> set dataFields
      \<and> (\<exists>m. m \<noteq> [] \<and> get seriesItem f = JObj m)
      \<and> (\<forall>k \<in> set (takeWhile (\<lambda>k. k \<noteq> f) (map fst seriesItem)).
            \<not> (k \<in> set dataFields \<and> (\<exists>m. m \<noteq> [] \<and> get seriesItem k = JObj m)))
      \<and> seriesItemStep sid info seriesItem [] =
            List.map_filter (\<lambda>k. map_option (epochRow sid info seriesItem k) (parseInt k))
              (own_keys (get seriesItem f))
      \<and> map pe_timestamp (seriesItemStep sid info seriesItem []) =
            List.map_filter parseInt (own_keys (get seriesItem f))
      \<and> (list_all (\<lambda>k. parseInt k \<noteq> None) (own_keys (get seriesItem f)) \<longrightarrow>
            map pe_timestamp (seriesItemStep sid info seriesItem []) =
              map (\<lambda>k. the (parseInt k)) (own_keys (get seriesItem f)))) \<and>
   pe_timestamp (epochRow sid info seriesItem k t) = t \<and>
   pe_state (epochRow sid info seriesItem k t) = get seriesItem ''state'' \<and>
   map fst (pe_metrics (epochRow sid info seriesItem k t)) = dataFields \<and>
   (\<forall>field \<in> set dataFields.
      map_of (pe_metrics (epochRow sid info seriesItem k t)) field =
        Some (case get seriesItem field of
                JObj m \<Rightarrow> (case map_of m k of
                             None \<Rightarrow> JNull
                           | Some v \<Rightarrow> if v = JUndefined then JNull else v)
              | _ \<Rightarrow> JNull))"
proof -
  have none: "refField seriesItem = None \<Longrightarrow> seriesItemStep sid info seriesItem [] = []"
    by (simp add: seriesItemStep_def)
  have some: "f \<in> set dataFields \<and> (\<exists>m. m \<noteq> [] \<and> get seriesItem f = JObj m)
      \<and> (\<forall>k \<in> set (takeWhile (\<lambda>k. k \<noteq> f) (map fst seriesItem)).
            \<not> (k \<in> set dataFields \<and> (\<exists>m. m \<noteq> [] \<and> get seriesItem k = JObj m)))"
    if "refField seriesItem = Some f"
    using refFieldLoop_Some [of seriesItem "map fst seriesItem" f] that
    unfolding refField_def is_candidate_iff by blast
  have ts: "map pe_timestamp (seriesItemStep sid info seriesItem []) =
              List.map_filter parseInt (own_keys (get seriesItem f))"
    if "refField seriesItem = Some f"
    by (simp add: step_of_refField [OF that] timestamps_map_filter)
  have row: "pe_timestamp (epochRow sid info seriesItem k t) = t"
    "pe_state (epochRow sid info seriesItem k t) = get seriesItem ''state''"
    "map fst (pe_metrics (epochRow sid info seriesItem k t)) = dataFields"
    by (simp_all add: epochRow_def comp_def)
  have metrics: "\<forall>field \<in> set dataFields.
      map_of (pe_metrics (epochRow sid info seriesItem k t)) field =
        Some (case get seriesItem field of
                JObj m \<Rightarrow> (case map_of m k of
                             None \<Rightarrow> JNull
                           | Some v \<Rightarrow> if v = JUndefined then JNull else v)
              | _ \<Rightarrow> JNull)"
    by (simp add: metrics_epochRow fieldValue_eq)
  have all: "map pe_timestamp (seriesItemStep sid info seriesItem []) =
              map (\<lambda>k. the (parseInt k)) (own_keys (get seriesItem f))"
    if "refField seriesItem = Some f"
      and "list_all (\<lambda>k. parseInt k \<noteq> None) (own_keys (get seriesItem f))"
    using ts [OF that(1)] map_filter_all_Some [OF that(2)] by simp
  show ?thesis
    using none some ts all step_of_refField [of seriesItem f sid info] row metrics
    by blast
qed


text \<open>
  The segment with state 1, heart rate at 100 and 160 and respiratory rate at 100
  gives the rows (100, 60, 14) and (160, 62, null).
\<close>

theorem segment_samples_witness:
  "(let seg = [(''state'', JNum (Fin 1)),
               (''hr'', JObj [(''100'', JNum (Fin 60)), (''160'', JNum (Fin 62))]),
               (''rr'', JObj [(''100'', JNum (Fin 14))])];
        out = seriesItemStep (JNum (Fin 7))
                \<lparr>info_timezone = JStr ''UTC'', info_night_events = JNull\<rparr> seg []
    in refField seg = Some ''hr''
       \<and> list_all (\<lambda>k. parseInt k \<noteq> None) (own_keys (get seg ''hr''))
       \<and> map pe_timestamp out = [100, 160]
       \<and> map (\<lambda>e. map_of (pe_metrics e) ''hr'') out = [Some (JNum (Fin 60)), Some (JNum (Fin 62))]
       \<and> map (\<lambda>e. map_of (pe_metrics e) ''rr'') out = [Some (JNum (Fin 14)), Some JNull])"
proof -
  let ?seg = "[(''state'', JNum (Fin 1)),
               (''hr'', JObj [(''100'', JNum (Fin 60)), (''160'', JNum (Fin 62))]),
               (''rr'', JObj [(''100'', JNum (Fin 14))])]"
  let ?sid = "JNum (Fin 7)"
  let ?info = "\<lparr>info_timezone = JStr ''UTC'', info_night_events = JNull\<rparr>"
  have ref: "refField ?seg = Some ''hr''"
    by (simp add: refField_def is_candidate_def dataFields_def get_def)
  have p: "parseInt ''100'' = Some 100" "parseInt ''160'' = Some 160"
    by (simp_all add: parseInt_def is_space_def is_digit_def digits_value_def)
  have keys: "own_keys (get ?seg ''hr'') = [''100'', ''160'']"
    by (simp add: get_def)
  have fields: "''hr'' \<in> set dataFields" "''rr'' \<in> set dataFields"
    by (simp_all add: dataFields_def)
  have g: "get ?seg ''hr'' = JObj [(''100'', JNum (Fin 60)), (''160'', JNum (Fin 62))]"
    "get ?seg ''rr'' = JObj [(''100'', JNum (Fin 14))]"
    by (simp_all add: get_def)
  note a = segment_samples [of ?seg ?sid ?info "''hr''" "''100''" 100]
  note b = segment_samples [of ?seg ?sid ?info "''hr''" "''160''" 160]
  have out: "seriesItemStep ?sid ?info ?seg [] =
               [epochRow ?sid ?info ?seg ''100'' 100, epochRow ?sid ?info ?seg ''160'' 160]"
    using a ref by (simp add: keys p)
  have ma: "map_of (pe_metrics (epochRow ?sid ?info ?seg ''100'' 100)) ''hr'' = Some (JNum (Fin 60))"
    "map_of (pe_metrics (epochRow ?sid ?info ?seg ''100'' 100)) ''rr'' = Some (JNum (Fin 14))"
    using a fields by (simp_all add: g)
  have mb: "map_of (pe_metrics (epochRow ?sid ?info ?seg ''160'' 160)) ''hr'' = Some (JNum (Fin 62))"
    "map_of (pe_metrics (epochRow ?sid ?info ?seg ''160'' 160)) ''rr'' = Some JNull"
    using b fields by (simp_all add: g)
  have ts: "pe_timestamp (epochRow ?sid ?info ?seg ''100'' 100) = 100"
    "pe_timestamp (epochRow ?sid ?info ?seg ''160'' 160) = 160"
    using a b by simp_all
  show ?thesis
    unfolding Let_def out using ref ma mb ts by (simp add: keys p)
qed

text \<open>
  A key that \<open>parseInt\<close> cannot read yields no row: the segment below has the
  reference field \<open>hr\<close> with the single key \<open>abc\<close> and emits nothing.
\<close>

lemma unparsable_key_skipped:
  "refField [(''state'', JNum (Fin 1)), (''hr'', JObj [(''abc'', JNum (Fin 60))])] = Some ''hr'' \<and>
   seriesItemStep sid info
     [(''state'', JNum (Fin 1)), (''hr'', JObj [(''abc'', JNum (Fin 60))])] [] = []"
  by (simp add: refField_def is_candidate_def dataFields_def get_def seriesItemStep_def
        parseInt_def is_space_def is_digit_def)

subsection \<open>Report generation\<close>

text \<open>
  C3 (amended). Report generation on an empty list of normalized summaries does not
  complete: whatever the label, the epoch rows and the time-zone flag,
  \<open>generateReport\<close> throws the error "No data found for this user to generate a
  report." and produces no report.
\<close>

theorem generateReport_empty_rejected:
  "generateReport lab [] epochData applyTimezone =
     Inl (Error ''No data found for this user to generate a report.'')"
  by (simp add: generateReport_def)

text \<open>
  C3 as stated says that the empty batch is not an error. On the empty list the
  function ends in an exception.
\<close>

theorem generateReport_empty_counterexample:
  "isl (generateReport ''lab'' [] None True)"
  by (simp add: generateReport_def)

subsection \<open>Wake-Episode Detector\<close>

text \<open>The scan only appends to \<open>results\<close>, and it can be cut at any row.\<close>

lemma pushEpisode_acc:
  "pushEpisode night i a b results = results @ pushEpisode night i a b []"
  by (simp add: pushEpisode_def Let_def)

lemma scanRows_acc:
  "scanRows night i start prev rows results =
     (case scanRows night i start prev rows [] of
        Inl e \<Rightarrow> Inl e
      | Inr (st, rs) \<Rightarrow> Inr (st, results @ rs))"
proof (induction rows arbitrary: start prev results)
  case Nil
  then show ?case by simp
next
  case (Cons r rows)
  show ?case
  proof (cases "awake r")
    case True
    then show ?thesis by (simp add: Cons.IH [of _ _ results])
  next
    case False
    show ?thesis
    proof (cases start)
      case None
      with False show ?thesis by (simp add: Cons.IH [of _ _ results])
    next
      case (Some s)
      show ?thesis
      proof (cases prev)
        case None
        with False Some show ?thesis by simp
      next
        case p: (Some p)
        let ?e = "pushEpisode night i (row_date s) (row_date p) []"
        have "scanRows night i start prev (r # rows) results =
                scanRows night i None (Some r) rows (results @ ?e)"
          using False Some p pushEpisode_acc [of night i _ _ results] by simp
        also have "\<dots> = (case scanRows night i None (Some r) rows [] of
                            Inl e \<Rightarrow> Inl e
                          | Inr (st, rs) \<Rightarrow> Inr (st, (results @ ?e) @ rs))"
          by (rule Cons.IH)
        finally have lhs: "scanRows night i start prev (r # rows) results =
            (case scanRows night i None (Some r) rows [] of
               Inl e \<Rightarrow> Inl e
             | Inr (st, rs) \<Rightarrow> Inr (st, results @ ?e @ rs))"
          by (simp split: sum.splits)
        have "scanRows night i start prev (r # rows) [] = scanRows night i None (Some r) rows ?e"
          using False Some p by simp
        also have "\<dots> = (case scanRows night i None (Some r) rows [] of
                            Inl e \<Rightarrow> Inl e
                          | Inr (st, rs) \<Rightarrow> Inr (st, ?e @ rs))"
          by (rule Cons.IH)
        finally have rhs: "scanRows night i start prev (r # rows) [] =
            (case scanRows night i None (Some r) rows [] of
               Inl e \<Rightarrow> Inl e
             | Inr (st, rs) \<Rightarrow> Inr (st, ?e @ rs))" .
        show ?thesis
          unfolding lhs rhs by (simp split: sum.splits)
      qed
    qed
  qed
qed

lemma scanRows_append:
  "scanRows night i start prev (xs @ ys) results =
     (case scanRows night i start prev xs results of
        Inl e \<Rightarrow> Inl e
      | Inr (st, rs) \<Rightarrow>
          scanRows night i st (if xs = [] then prev else Some (last xs)) ys rs)"
proof (induction xs arbitrary: start prev results)
  case Nil
  then show ?case by simp
next
  case (Cons r xs)
  show ?case
  proof (cases "xs = []")
    case True
    then show ?thesis
      by (cases "awake r"; cases start; cases prev) simp_all
  next
    case False
    then show ?thesis
      by (cases "awake r"; cases start; cases prev) (simp_all add: Cons.IH split: sum.splits)
  qed
qed

text \<open>
  The read of \<open>rows[i - 1]\<close> is safe: a run is open only after a row has been seen.
\<close>

lemma scanRows_no_error:
  "(start \<noteq> None \<longrightarrow> prev \<noteq> None) \<Longrightarrow>
     \<exists>st rs. scanRows night i start prev rows results = Inr (st, rs)"
proof (induction rows arbitrary: start prev results)
  case Nil
  then show ?case by simp
next
  case (Cons r rows)
  then show ?case
    by (cases "awake r"; cases start; cases prev) simp_all
qed

lemma scanRows_awake:
  "\<forall>r \<in> set run. awake r \<Longrightarrow> run \<noteq> [] \<Longrightarrow>
     scanRows night i start prev run results =
       Inr (case start of None \<Rightarrow> Some (hd run) | Some s \<Rightarrow> Some s, results)"
proof (induction run arbitrary: start prev)
  case Nil
  then show ?case by simp
next
  case (Cons r run)
  show ?case
  proof (cases "run = []")
    case True
    with Cons.prems show ?thesis by (simp split: option.splits)
  next
    case False
    with Cons show ?thesis by (cases start) simp_all
  qed
qed

lemma scanRows_closed:
  assumes "xs \<noteq> []" "\<not> awake (last xs)"
    and "scanRows night i start prev xs results = Inr (st, rs)"
  shows "st = None"
proof -
  from assms(1) have xs: "xs = butlast xs @ [last xs]" by simp
  obtain st' rs' where mid: "scanRows night i start prev (butlast xs) results = Inr (st', rs')"
    using assms(3) scanRows_append [of night i start prev "butlast xs" "[last xs]" results] xs
    by (cases "scanRows night i start prev (butlast xs) results") auto
  from assms(3) have "scanRows night i st' (if butlast xs = [] then prev else Some (last (butlast xs)))
                        [last xs] rs' = Inr (st, rs)"
    using scanRows_append [of night i start prev "butlast xs" "[last xs]" results] xs mid
    by simp
  with assms(2) show ?thesis
    by (cases st'; cases "if butlast xs = [] then prev else Some (last (butlast xs))")
       (auto split: if_splits)
qed


lemma scanRows_from_None:
  assumes "xs = [] \<or> \<not> awake (last xs)"
  shows "\<exists>rs. scanRows night i None prev xs results = Inr (None, rs)"
proof (cases "xs = []")
  case True
  then show ?thesis by simp
next
  case False
  obtain st rs where sc: "scanRows night i None prev xs results = Inr (st, rs)"
    using scanRows_no_error [of None prev night i xs results] by auto
  with assms False have "st = None" by (auto dest: scanRows_closed [rotated 2])
  with sc show ?thesis by simp
qed

lemma scanNight_no_error: "\<exists>rs. scanNight night i rows results = Inr rs"
proof -
  obtain st rs where sc: "scanRows night i None None rows results = Inr (st, rs)"
    using scanRows_no_error [of None None night i rows results] by auto
  show ?thesis
  proof (cases st)
    case None
    with sc show ?thesis by (simp add: scanNight_def)
  next
    case (Some s)
    with sc have "rows \<noteq> []" by auto
    with sc Some show ?thesis by (simp add: scanNight_def)
  qed
qed

lemma pushEpisode_inside:
  assumes "night_start night \<le> a" "b \<le> night_end night"
  shows "pushEpisode night i a b [] =
           (if 600000 \<le> b - a
            then [\<lparr>wk_id = i, wk_start = a, wk_end = b,
                   durationSec = real_of_int (b - a) / 1000\<rparr>]
            else [])"
proof -
  have "(600 \<le> real_of_int (b - a) / 1000) = (600000 \<le> b - a)"
    by (simp add: le_divide_eq) linarith
  with assms show ?thesis by (simp add: pushEpisode_def)
qed

lemma pushEpisode_clipped:
  "pushEpisode night i a b [] =
     (let cs = max (night_start night) a; ce = min (night_end night) b
      in if 600000 \<le> ce - cs
         then [\<lparr>wk_id = i, wk_start = cs, wk_end = ce,
                durationSec = real_of_int (ce - cs) / 1000\<rparr>]
         else [])"
proof -
  have cs: "(if a < night_start night then night_start night else a) = max (night_start night) a"
    by (simp add: max_def)
  have ce: "(if b > night_end night then night_end night else b) = min (night_end night) b"
    by (simp add: min_def)
  have "(600 \<le> real_of_int (ce - cs) / 1000) = (600000 \<le> ce - cs)" for ce cs :: int
    by (simp add: le_divide_eq) linarith
  then show ?thesis
    unfolding pushEpisode_def Let_def cs ce by simp
qed

text \<open>
  A maximal run of awake rows, with the rows before and after it: the scan of the
  whole list gives the episodes of the rows before, then what the run itself
  yields, then the episodes of the rows after.
\<close>

lemma run_decomposition:
  assumes run: "run \<noteq> []" "\<forall>r \<in> set run. awake r"
    and pre: "pre = [] \<or> \<not> awake (last pre)"
    and post: "post = [] \<or> \<not> awake (hd post)"
  shows "\<exists>before after.
           scanNight night i pre [] = Inr before \<and> scanNight night i post [] = Inr after \<and>
           scanNight night i (pre @ run @ post) [] =
             Inr (before @ pushEpisode night i (row_date (hd run)) (row_date (last run)) [] @ after)"
proof -
  let ?ep = "pushEpisode night i (row_date (hd run)) (row_date (last run)) []"
  let ?p1 = "if pre = [] then None else Some (last pre)"
  obtain b where b: "scanRows night i None None pre [] = Inr (None, b)"
    using scanRows_from_None [OF pre] by blast
  then have before: "scanNight night i pre [] = Inr b"
    by (simp add: scanNight_def)
  have step1: "scanRows night i None None (pre @ run @ post) [] =
                 scanRows night i None ?p1 (run @ post) b"
    using scanRows_append [of night i None None pre "run @ post" "[]"] b by simp
  have step2: "scanRows night i None ?p1 (run @ post) b =
                 scanRows night i (Some (hd run)) (Some (last run)) post b"
    using scanRows_append [of night i None ?p1 run post b]
      scanRows_awake [OF run(2) run(1), of night i None ?p1 b] run(1)
    by simp
  show ?thesis
  proof (cases post)
    case Nil
    have "scanNight night i (pre @ run @ post) [] = Inr (b @ ?ep)"
      using step1 step2 Nil run(1) pushEpisode_acc [of night i _ _ b]
      by (simp add: scanNight_def)
    moreover have "scanNight night i post [] = Inr []"
      using Nil by (simp add: scanNight_def)
    ultimately show ?thesis using before by simp
  next
    case (Cons q post')
    with post have q: "\<not> awake q" by simp
    obtain st a where a: "scanRows night i None (Some q) post' [] = Inr (st, a)"
      using scanRows_no_error [of None "Some q" night i post' "[]"] by auto
    have whole: "scanRows night i None None (pre @ run @ post) [] = Inr (st, (b @ ?ep) @ a)"
      using step1 step2 Cons q a pushEpisode_acc [of night i _ _ b]
        scanRows_acc [of night i None "Some q" post' "b @ ?ep"]
      by simp
    have alone: "scanRows night i None None post [] = Inr (st, a)"
      using Cons q a by simp
    have lasts: "last (pre @ run @ post) = last post" "post \<noteq> []" "pre @ run @ post \<noteq> []"
      using Cons by simp_all
    show ?thesis
    proof (cases st)
      case None
      with whole alone before show ?thesis by (simp add: scanNight_def)
    next
      case (Some s)
      let ?t = "pushEpisode night i (row_date s) (row_date (last post)) []"
      have "scanNight night i post [] = Inr (a @ ?t)"
        using alone Some lasts pushEpisode_acc [of night i _ _ a] by (simp add: scanNight_def)
      moreover have "scanNight night i (pre @ run @ post) [] = Inr (b @ ?ep @ a @ ?t)"
        using whole Some lasts pushEpisode_acc [of night i _ _ "(b @ ?ep) @ a"]
        by (simp add: scanNight_def)
      ultimately show ?thesis using before by simp
    qed
  qed
qed


text \<open>
  When all rows of the table belong to one night that has an interval,
  \<open>findWakeEpisodes\<close> is the scan of that night.
\<close>

lemma remdups_single: "set xs = {i} \<Longrightarrow> remdups xs = [i]"
proof (induction xs)
  case Nil
  then show ?case by simp
next
  case (Cons x xs)
  show ?case
  proof (cases "xs = []")
    case True
    with Cons.prems show ?thesis by simp
  next
    case False
    then obtain y where "y \<in> set xs" by (cases xs) auto
    with Cons.prems have "set xs = {i}" "x = i" by auto
    with Cons.IH show ?thesis by simp
  qed
qed

lemma single_night:
  assumes "data \<noteq> []"
    and "\<forall>row \<in> set data. to_string h (row_id row) = i"
    and "nightIntervals h summaryData i = Some night"
  shows "findWakeEpisodes h data summaryData = nightEpisodes night i data []"
proof -
  have "set (rev (map (\<lambda>row. to_string h (row_id row)) data)) = {i}"
    using assms(1,2) by (cases data) auto
  then have keys: "first_occurrences (map (\<lambda>row. to_string h (row_id row)) data) = [i]"
    unfolding first_occurrences_def by (simp only: remdups_single) simp
  have ord: "key_order [i] = [i]"
    by (simp add: key_order_def)
  have all: "filter (\<lambda>row. to_string h (row_id row) = i) data = data"
    using assms(2) by simp
  show ?thesis
    using assms(1,3) scanNight_no_error [of night i "sort_key row_timestamp data" "[]"]
    by (auto simp: findWakeEpisodes_def keys ord all nightEpisodes_def)
qed

text \<open>
  C5. The rows of a night are sorted by timestamp. Every maximal run of consecutive
  awake rows that lies inside the interval of the night yields exactly one episode,
  from the date of its first row to the date of its last row, when these are at
  least 600 seconds apart (600 seconds included), and no episode when they are less
  than 600 seconds apart; the other episodes of the night are those of the rows
  before the run and of the rows after it.
\<close>

theorem awake_run_episode:
  assumes "sort_key row_timestamp grouped = pre @ run @ post"
    and "run \<noteq> []" and "\<forall>r \<in> set run. awake r"
    and "pre = [] \<or> \<not> awake (last pre)"
    and "post = [] \<or> \<not> awake (hd post)"
    and "night_start night \<le> row_date (hd run)"
    and "row_date (last run) \<le> night_end night"
  shows "\<exists>before after.
           scanNight night i pre [] = Inr before \<and> scanNight night i post [] = Inr after \<and>
           nightEpisodes night i grouped [] =
             Inr (before
                  @ (if 600000 \<le> row_date (last run) - row_date (hd run)
                     then [\<lparr>wk_id = i, wk_start = row_date (hd run),
                            wk_end = row_date (last run),
                            durationSec =
                              real_of_int (row_date (last run) - row_date (hd run)) / 1000\<rparr>]
                     else [])
                  @ after)"
  using run_decomposition [OF assms(2-5), of night i]
  unfolding nightEpisodes_def assms(1) pushEpisode_inside [OF assms(6,7)] .

text \<open>
  Rows at 0, 300, 600, 900 and 1200 seconds with states 0, 0, 0, 1, 1 in the night
  from 0 to 1200 seconds: the single episode from 0 to 600 seconds.
\<close>

theorem awake_run_episode_witness:
  "(let night = \<lparr>night_start = 0, night_end = 1200000\<rparr>;
        run = [\<lparr>row_id = JStr ''n1'', row_state = JNum (Fin 0), row_timestamp = 0, row_date = 0\<rparr>, \<lparr>row_id = JStr ''n1'', row_state = JNum (Fin 0), row_timestamp = 300, row_date = 300000\<rparr>, \<lparr>row_id = JStr ''n1'', row_state = JNum (Fin 0), row_timestamp = 600, row_date = 600000\<rparr>];
        post = [\<lparr>row_id = JStr ''n1'', row_state = JNum (Fin 1), row_timestamp = 900, row_date = 900000\<rparr>, \<lparr>row_id = JStr ''n1'', row_state = JNum (Fin 1), row_timestamp = 1200, row_date = 1200000\<rparr>]
    in sort_key row_timestamp [\<lparr>row_id = JStr ''n1'', row_state = JNum (Fin 1), row_timestamp = 900, row_date = 900000\<rparr>, \<lparr>row_id = JStr ''n1'', row_state = JNum (Fin 0), row_timestamp = 0, row_date = 0\<rparr>, \<lparr>row_id = JStr ''n1'', row_state = JNum (Fin 0), row_timestamp = 300, row_date = 300000\<rparr>, \<lparr>row_id = JStr ''n1'', row_state = JNum (Fin 0), row_timestamp = 600, row_date = 600000\<rparr>, \<lparr>row_id = JStr ''n1'', row_state = JNum (Fin 1), row_timestamp = 1200, row_date = 1200000\<rparr>] = [] @ run @ post
       \<and> (\<forall>r \<in> set run. awake r) \<and> \<not> awake (hd post)
       \<and> night_start night \<le> row_date (hd run) \<and> row_date (last run) \<le> night_end night
       \<and> nightEpisodes night ''n1'' [\<lparr>row_id = JStr ''n1'', row_state = JNum (Fin 1), row_timestamp = 900, row_date = 900000\<rparr>, \<lparr>row_id = JStr ''n1'', row_state = JNum (Fin 0), row_timestamp = 0, row_date = 0\<rparr>, \<lparr>row_id = JStr ''n1'', row_state = JNum (Fin 0), row_timestamp = 300, row_date = 300000\<rparr>, \<lparr>row_id = JStr ''n1'', row_state = JNum (Fin 0), row_timestamp = 600, row_date = 600000\<rparr>, \<lparr>row_id = JStr ''n1'', row_state = JNum (Fin 1), row_timestamp = 1200, row_date = 1200000\<rparr>] [] =
           Inr [\<lparr>wk_id = ''n1'', wk_start = 0, wk_end = 600000, durationSec = 600\<rparr>])"
proof -
  let ?night = "\<lparr>night_start = 0, night_end = 1200000\<rparr>"
  let ?run = "[\<lparr>row_id = JStr ''n1'', row_state = JNum (Fin 0), row_timestamp = 0, row_date = 0\<rparr>, \<lparr>row_id = JStr ''n1'', row_state = JNum (Fin 0), row_timestamp = 300, row_date = 300000\<rparr>, \<lparr>row_id = JStr ''n1'', row_state = JNum (Fin 0), row_timestamp = 600, row_date = 600000\<rparr>]"
  let ?post = "[\<lparr>row_id = JStr ''n1'', row_state = JNum (Fin 1), row_timestamp = 900, row_date = 900000\<rparr>, \<lparr>row_id = JStr ''n1'', row_state = JNum (Fin 1), row_timestamp = 1200, row_date = 1200000\<rparr>]"
  let ?g = "[\<lparr>row_id = JStr ''n1'', row_state = JNum (Fin 1), row_timestamp = 900, row_date = 900000\<rparr>, \<lparr>row_id = JStr ''n1'', row_state = JNum (Fin 0), row_timestamp = 0, row_date = 0\<rparr>, \<lparr>row_id = JStr ''n1'', row_state = JNum (Fin 0), row_timestamp = 300, row_date = 300000\<rparr>, \<lparr>row_id = JStr ''n1'', row_state = JNum (Fin 0), row_timestamp = 600, row_date = 600000\<rparr>, \<lparr>row_id = JStr ''n1'', row_state = JNum (Fin 1), row_timestamp = 1200, row_date = 1200000\<rparr>]"
  have sorted: "sort_key row_timestamp ?g = [] @ ?run @ ?post"
    by simp
  have aw: "\<forall>r \<in> set ?run. awake r" "[] = [] \<or> \<not> awake (last ([] :: EpochRow list))"
    "?post = [] \<or> \<not> awake (hd ?post)"
    by (simp_all add: awake_def)
  have inside: "night_start ?night \<le> row_date (hd ?run)" "row_date (last ?run) \<le> night_end ?night"
    by simp_all
  have before: "scanNight ?night ''n1'' [] [] = Inr []"
    by (simp add: scanNight_def)
  have after: "scanNight ?night ''n1'' ?post [] = Inr []"
    by (simp add: scanNight_def awake_def)
  from awake_run_episode [OF sorted _ aw inside, of "''n1''"] before after
  have "nightEpisodes ?night ''n1'' ?g [] =
          Inr [\<lparr>wk_id = ''n1'', wk_start = 0, wk_end = 600000, durationSec = 600\<rparr>]"
    by simp
  with sorted aw inside show ?thesis
    unfolding Let_def by simp
qed

text \<open>
  C2 (amended). When the sorted rows of a night end in a maximal run of awake rows,
  the provisional end of that episode is the date of the last row of the list, which
  is the last awake row of the run. The start is raised to the start of the night
  when it lies before it, the end is lowered to the end of the night when it lies
  after it, and the episode is retained exactly when the clipped duration is at
  least 600 seconds.
\<close>

theorem trailing_run_episode:
  assumes "sort_key row_timestamp grouped = pre @ run"
    and "run \<noteq> []" and "\<forall>r \<in> set run. awake r"
    and "pre = [] \<or> \<not> awake (last pre)"
  shows "\<exists>before.
           scanNight night i pre [] = Inr before \<and>
           nightEpisodes night i grouped [] =
             Inr (before
                  @ (let cs = max (night_start night) (row_date (hd run));
                         ce = min (night_end night)
                                (row_date (last (sort_key row_timestamp grouped)))
                     in if 600000 \<le> ce - cs
                        then [\<lparr>wk_id = i, wk_start = cs, wk_end = ce,
                               durationSec = real_of_int (ce - cs) / 1000\<rparr>]
                        else []))"
proof -
  have l: "last (pre @ run) = last run"
    using assms(2) by simp
  have e: "scanNight night i [] [] = Inr []"
    by (simp add: scanNight_def)
  show ?thesis
    using run_decomposition [OF assms(2-4), of "[]" night i] e
    unfolding nightEpisodes_def assms(1) l pushEpisode_clipped [of night i]
    by simp
qed

text \<open>
  A night from 0 to 10000 seconds whose rows end with awake rows at 200, 500 and 900
  seconds: the episode runs from 200 to 900 seconds.
\<close>

theorem trailing_run_episode_witness:
  "(let night = \<lparr>night_start = 0, night_end = 10000000\<rparr>;
        pre = [\<lparr>row_id = JStr ''n1'', row_state = JNum (Fin 1), row_timestamp = 100, row_date = 100000\<rparr>];
        run = [\<lparr>row_id = JStr ''n1'', row_state = JNum (Fin 0), row_timestamp = 200, row_date = 200000\<rparr>, \<lparr>row_id = JStr ''n1'', row_state = JNum (Fin 0), row_timestamp = 500, row_date = 500000\<rparr>, \<lparr>row_id = JStr ''n1'', row_state = JNum (Fin 0), row_timestamp = 900, row_date = 900000\<rparr>]
    in sort_key row_timestamp [\<lparr>row_id = JStr ''n1'', row_state = JNum (Fin 1), row_timestamp = 100, row_date = 100000\<rparr>, \<lparr>row_id = JStr ''n1'', row_state = JNum (Fin 0), row_timestamp = 200, row_date = 200000\<rparr>, \<lparr>row_id = JStr ''n1'', row_state = JNum (Fin 0), row_timestamp = 500, row_date = 500000\<rparr>, \<lparr>row_id = JStr ''n1'', row_state = JNum (Fin 0), row_timestamp = 900, row_date = 900000\<rparr>] = pre @ run
       \<and> (\<forall>r \<in> set run. awake r) \<and> \<not> awake (last pre)
       \<and> nightEpisodes night ''n1'' [\<lparr>row_id = JStr ''n1'', row_state = JNum (Fin 1), row_timestamp = 100, row_date = 100000\<rparr>, \<lparr>row_id = JStr ''n1'', row_state = JNum (Fin 0), row_timestamp = 200, row_date = 200000\<rparr>, \<lparr>row_id = JStr ''n1'', row_state = JNum (Fin 0), row_timestamp = 500, row_date = 500000\<rparr>, \<lparr>row_id = JStr ''n1'', row_state = JNum (Fin 0), row_timestamp = 900, row_date = 900000\<rparr>] [] =
           Inr [\<lparr>wk_id = ''n1'', wk_start = 200000, wk_end = 900000, durationSec = 700\<rparr>])"
proof -
  let ?night = "\<lparr>night_start = 0, night_end = 10000000\<rparr>"
  let ?pre = "[\<lparr>row_id = JStr ''n1'', row_state = JNum (Fin 1), row_timestamp = 100, row_date = 100000\<rparr>]"
  let ?run = "[\<lparr>row_id = JStr ''n1'', row_state = JNum (Fin 0), row_timestamp = 200, row_date = 200000\<rparr>, \<lparr>row_id = JStr ''n1'', row_state = JNum (Fin 0), row_timestamp = 500, row_date = 500000\<rparr>, \<lparr>row_id = JStr ''n1'', row_state = JNum (Fin 0), row_timestamp = 900, row_date = 900000\<rparr>]"
  let ?g = "[\<lparr>row_id = JStr ''n1'', row_state = JNum (Fin 1), row_timestamp = 100, row_date = 100000\<rparr>, \<lparr>row_id = JStr ''n1'', row_state = JNum (Fin 0), row_timestamp = 200, row_date = 200000\<rparr>, \<lparr>row_id = JStr ''n1'', row_state = JNum (Fin 0), row_timestamp = 500, row_date = 500000\<rparr>, \<lparr>row_id = JStr ''n1'', row_state = JNum (Fin 0), row_timestamp = 900, row_date = 900000\<rparr>]"
  have sorted: "sort_key row_timestamp ?g = ?pre @ ?run"
    by simp
  have aw: "\<forall>r \<in> set ?run. awake r" "?pre = [] \<or> \<not> awake (last ?pre)"
    by (simp_all add: awake_def)
  have before: "scanNight ?night ''n1'' ?pre [] = Inr []"
    by (simp add: scanNight_def awake_def)
  from trailing_run_episode [OF sorted _ aw, of ?night "''n1''"] before
  have "nightEpisodes ?night ''n1'' ?g [] =
          Inr [\<lparr>wk_id = ''n1'', wk_start = 200000, wk_end = 900000, durationSec = 700\<rparr>]"
    by (simp add: Let_def)
  with sorted aw show ?thesis
    unfolding Let_def by simp
qed

text \<open>
  C2 as stated takes the end of the night as the provisional end. In a night from 0
  to 10000 seconds whose rows end with awake rows at 200 and 300 seconds, that
  reading retains an episode of 9800 seconds; the detector reports none.
\<close>

theorem trailing_run_night_end_counterexample:
  "nightEpisodes \<lparr>night_start = 0, night_end = 10000000\<rparr> ''n1'' [\<lparr>row_id = JStr ''n1'', row_state = JNum (Fin 1), row_timestamp = 100, row_date = 100000\<rparr>, \<lparr>row_id = JStr ''n1'', row_state = JNum (Fin 0), row_timestamp = 200, row_date = 200000\<rparr>, \<lparr>row_id = JStr ''n1'', row_state = JNum (Fin 0), row_timestamp = 300, row_date = 300000\<rparr>] [] = Inr [] \<and>
   trailingEpisode_spec \<lparr>night_start = 0, night_end = 10000000\<rparr> ''n1'' [\<lparr>row_id = JStr ''n1'', row_state = JNum (Fin 0), row_timestamp = 200, row_date = 200000\<rparr>, \<lparr>row_id = JStr ''n1'', row_state = JNum (Fin 0), row_timestamp = 300, row_date = 300000\<rparr>] =
     [\<lparr>wk_id = ''n1'', wk_start = 200000, wk_end = 10000000, durationSec = 9800\<rparr>]"
  by (simp add: nightEpisodes_def scanNight_def awake_def pushEpisode_def trailingEpisode_spec_def)

subsection \<open>Timing Layout Builder\<close>

lemma minutes_from_noon_range:
  assumes "0 \<le> hour" "hour \<le> 23" "0 \<le> minute" "minute \<le> 59"
  shows "0 \<le> minutes_from_noon hour minute \<and> minutes_from_noon hour minute < 1440"
proof -
  have pos: "0 < hour * 60 + minute - 720 + 1440" using assms by linarith
  then have "minutes_from_noon hour minute = (hour * 60 + minute - 720 + 1440) mod 1440"
    by (simp add: minutes_from_noon_def js_rem_def)
  then show ?thesis by simp
qed

lemma hour_minute_range:
  "hour_minute t off = (hour, minute) \<Longrightarrow> 0 \<le> hour \<and> hour \<le> 23 \<and> 0 \<le> minute \<and> minute \<le> 59"
  by (auto simp: hour_minute_def Let_def)

lemma mins_from_noon_js_range:
  assumes "mins_from_noon_js h a date tz = Some m"
  shows "0 \<le> m \<and> m < 1440"
proof -
  from assms obtain t off hour minute
    where hm: "hour_minute t off = (hour, minute)" and m: "m = minutes_from_noon hour minute"
    by (auto simp: mins_from_noon_js_def Let_def split: jsval.splits option.splits prod.splits)
  from hour_minute_range [OF hm] show ?thesis
    unfolding m by (intro minutes_from_noon_range) simp_all
qed

lemma timingRecord_Some:
  assumes "timingRecord h a row = Some r"
  shows "\<exists>s e. mins_from_noon_js h a (get row ''startdate_utc'')
                  (js_or (get row ''w_timezone'') (get row ''timezone'')) = Some s
     \<and> mins_from_noon_js h a (get row ''enddate_utc'')
                  (js_or (get row ''w_timezone'') (get row ''timezone'')) = Some e
     \<and> tr_base r = s \<and> tr_duration r = (if e < s then e + 1440 else e) - s"
proof -
  let ?tz = "js_or (get row ''w_timezone'') (get row ''timezone'')"
  let ?s = "mins_from_noon_js h a (get row ''startdate_utc'') ?tz"
  let ?e = "mins_from_noon_js h a (get row ''enddate_utc'') ?tz"
  let ?y = "formatInTimeZoneJS h a (get row ''enddate_utc'') ?tz"
  show ?thesis
  proof (cases ?s)
    case None
    with assms show ?thesis by (simp add: timingRecord_def)
  next
    case s: (Some s)
    show ?thesis
    proof (cases ?e)
      case None
      with assms s show ?thesis by (simp add: timingRecord_def)
    next
      case e: (Some e)
      show ?thesis
      proof (cases ?y)
        case None
        with assms s e show ?thesis by (simp add: timingRecord_def)
      next
        case (Some y)
        with assms s e
        have "tr_base r = s \<and> tr_duration r = (if e < s then e + 1440 else e) - s"
          by (auto simp: timingRecord_def)
        with s e show ?thesis by simp
      qed
    qed
  qed
qed

text \<open>
  C4 (amended). For every local time with an hour from 0 to 23 and a minute from 0
  to 59 the minutes-from-noon value lies in [0, 1440), and so does every value that
  \<open>mins_from_noon_js\<close> returns. For every night that gets a timing record, the base
  lies in [0, 1440) and the duration in minutes lies in [0, 1440); the duration is
  greater than 0 exactly when the minutes-from-noon of the end differs from that of
  the start.
\<close>

theorem timing_bounds:
  "(0 \<le> hour \<and> hour \<le> 23 \<and> 0 \<le> minute \<and> minute \<le> 59 \<longrightarrow>
      0 \<le> minutes_from_noon hour minute \<and> minutes_from_noon hour minute < 1440) \<and>
   (mins_from_noon_js h a date tz = Some m \<longrightarrow> 0 \<le> m \<and> m < 1440) \<and>
   (timingRecord h a row = Some r \<longrightarrow>
      0 \<le> tr_base r \<and> tr_base r < 1440 \<and> 0 \<le> tr_duration r \<and> tr_duration r < 1440
      \<and> (0 < tr_duration r \<longleftrightarrow>
            mins_from_noon_js h a (get row ''enddate_utc'')
              (js_or (get row ''w_timezone'') (get row ''timezone''))
            \<noteq> mins_from_noon_js h a (get row ''startdate_utc'')
                (js_or (get row ''w_timezone'') (get row ''timezone''))))"
proof (intro conjI impI)
  assume r: "timingRecord h a row = Some r"
  let ?tz = "js_or (get row ''w_timezone'') (get row ''timezone'')"
  from timingRecord_Some [OF r] obtain s e
    where s: "mins_from_noon_js h a (get row ''startdate_utc'') ?tz = Some s"
      and e: "mins_from_noon_js h a (get row ''enddate_utc'') ?tz = Some e"
      and b: "tr_base r = s" and d: "tr_duration r = (if e < s then e + 1440 else e) - s"
    by blast
  have rs: "0 \<le> s \<and> s < 1440" using mins_from_noon_js_range [OF s] .
  have re: "0 \<le> e \<and> e < 1440" using mins_from_noon_js_range [OF e] .
  show "0 \<le> tr_base r" "tr_base r < 1440" using rs b by simp_all
  show "0 \<le> tr_duration r" "tr_duration r < 1440" using rs re d by (simp_all split: if_splits)
  show "0 < tr_duration r \<longleftrightarrow>
          mins_from_noon_js h a (get row ''enddate_utc'') ?tz
            \<noteq> mins_from_noon_js h a (get row ''startdate_utc'') ?tz"
    using rs re d s e by (auto split: if_splits)
next
  assume "0 \<le> hour \<and> hour \<le> 23 \<and> 0 \<le> minute \<and> minute \<le> 59"
  then show "0 \<le> minutes_from_noon hour minute" "minutes_from_noon hour minute < 1440"
    using minutes_from_noon_range [of hour minute] by simp_all
next
  assume "mins_from_noon_js h a date tz = Some m"
  then show "0 \<le> m" "m < 1440"
    using mins_from_noon_js_range by blast+
qed

text \<open>
  A night from 23:00 to 07:00 of the next day: base 660, raw end 1140, duration 480.
\<close>

theorem timing_bounds_witness:
  "(let row = [(''id'', JStr ''n1''),
               (''startdate_utc'', JDate (Some 82800000)),
               (''enddate_utc'', JDate (Some 111600000))];
        r = the (timingRecord utc_host False row)
    in timingRecord utc_host False row \<noteq> None
       \<and> tr_base r = 660 \<and> tr_duration r = 480
       \<and> 0 \<le> tr_duration r \<and> tr_duration r < 1440
       \<and> minutes_from_noon 23 0 = 660 \<and> minutes_from_noon 7 0 = 1140
       \<and> 0 \<le> minutes_from_noon 23 0 \<and> minutes_from_noon 23 0 < 1440)"
proof -
  let ?row = "[(''id'', JStr ''n1''),
               (''startdate_utc'', JDate (Some 82800000)),
               (''enddate_utc'', JDate (Some 111600000))]"
  have m: "minutes_from_noon 23 0 = 660" "minutes_from_noon 7 0 = 1140"
    by (simp_all add: minutes_from_noon_def js_rem_def)
  have hm: "hour_minute 82800000 0 = (23, 0)" "hour_minute 111600000 0 = (7, 0)"
    by (simp_all add: hour_minute_def Let_def)
  have g: "get ?row ''startdate_utc'' = JDate (Some 82800000)"
    "get ?row ''enddate_utc'' = JDate (Some 111600000)"
    by (simp_all add: get_def)
  have s: "mins_from_noon_js utc_host False (JDate (Some 82800000)) tz = Some 660" for tz
    by (simp add: mins_from_noon_js_def zone_offset_def zone_name_def hm m)
  have e: "mins_from_noon_js utc_host False (JDate (Some 111600000)) tz = Some 1140" for tz
    by (simp add: mins_from_noon_js_def zone_offset_def zone_name_def hm m)
  have y: "formatInTimeZoneJS utc_host False (JDate (Some 111600000)) tz = Some []" for tz
    by (simp add: formatInTimeZoneJS_def zone_offset_def zone_name_def utc_host_def)
  have r: "timingRecord utc_host False ?row \<noteq> None"
    "tr_base (the (timingRecord utc_host False ?row)) = 660"
    "tr_duration (the (timingRecord utc_host False ?row)) = 480"
    unfolding timingRecord_def Let_def g s e y by simp_all
  show ?thesis
    using timing_bounds [of 23 0 utc_host False "JDate (Some 82800000)" JUndefined 660 ?row
            "the (timingRecord utc_host False ?row)"] r m
    unfolding Let_def by simp
qed

text \<open>
  C4 as stated says that the duration is greater than 0 whenever the night ends
  after it starts. A night from 00:00:10 to 00:00:50 ends after it starts and has
  duration 0.
\<close>

theorem timing_zero_duration_counterexample:
  "(10000 :: int) < 50000 \<and>
   map_option tr_duration
     (timingRecord utc_host False
        [(''id'', JStr ''n1''),
         (''startdate_utc'', JDate (Some 10000)),
         (''enddate_utc'', JDate (Some 50000))]) = Some 0"
proof -
  let ?row = "[(''id'', JStr ''n1''),
               (''startdate_utc'', JDate (Some 10000)),
               (''enddate_utc'', JDate (Some 50000))]"
  have hm: "hour_minute 10000 0 = (0, 0)" "hour_minute 50000 0 = (0, 0)"
    by (simp_all add: hour_minute_def Let_def)
  have m: "minutes_from_noon 0 0 = 720"
    by (simp add: minutes_from_noon_def js_rem_def)
  have g: "get ?row ''startdate_utc'' = JDate (Some 10000)"
    "get ?row ''enddate_utc'' = JDate (Some 50000)"
    by (simp_all add: get_def)
  have s: "mins_from_noon_js utc_host False (JDate (Some 10000)) tz = Some 720" for tz
    by (simp add: mins_from_noon_js_def zone_offset_def zone_name_def hm m)
  have e: "mins_from_noon_js utc_host False (JDate (Some 50000)) tz = Some 720" for tz
    by (simp add: mins_from_noon_js_def zone_offset_def zone_name_def hm m)
  have y: "formatInTimeZoneJS utc_host False (JDate (Some 50000)) tz = Some []" for tz
    by (simp add: formatInTimeZoneJS_def zone_offset_def zone_name_def utc_host_def)
  show ?thesis
    unfolding timingRecord_def Let_def g s e y by simp
qed

subsection \<open>Statistics Engine\<close>

lemma metricValues_set:
  "n \<in> set (metricValues validData field) \<longleftrightarrow>
     n \<noteq> NaN \<and> (\<exists>row \<in> set validData. metricValue row field = JNum n)"
proof
  assume "n \<in> set (metricValues validData field)"
  then obtain row where "row \<in> set validData" "number_not_NaN (metricValue row field)"
    "n = the_number (metricValue row field)"
    by (auto simp: metricValues_def)
  then show "n \<noteq> NaN \<and> (\<exists>row \<in> set validData. metricValue row field = JNum n)"
    by (cases "metricValue row field") auto
next
  assume "n \<noteq> NaN \<and> (\<exists>row \<in> set validData. metricValue row field = JNum n)"
  then obtain row where row: "row \<in> set validData" "metricValue row field = JNum n" "n \<noteq> NaN"
    by blast
  then have "metricValue row field \<in> set (filter number_not_NaN (map (\<lambda>row. metricValue row field) validData))"
    by (auto simp: image_iff intro!: bexI [of _ row])
  then have "the_number (metricValue row field) \<in> set (metricValues validData field)"
    unfolding metricValues_def by (metis image_eqI set_map)
  with row show "n \<in> set (metricValues validData field)" by simp
qed

lemma metricValues_length:
  "length (metricValues validData field) =
     length (filter (\<lambda>row. \<exists>n. n \<noteq> NaN \<and> metricValue row field = JNum n) validData)"
proof -
  have "number_not_NaN v \<longleftrightarrow> (\<exists>n. n \<noteq> NaN \<and> v = JNum n)" for v
    by (cases v) auto
  then show ?thesis
    by (simp add: metricValues_def filter_map comp_def)
qed

lemma metricAggregate_Some:
  "metricAggregate validData field = Some agg \<Longrightarrow>
     ma_avg agg = mean (convertValues field (metricValues validData field))
     \<and> ma_stdev agg = std (convertValues field (metricValues validData field)) (ma_avg agg)
     \<and> ma_minVal agg = Math_min (convertValues field (metricValues validData field))
     \<and> ma_maxVal agg = Math_max (convertValues field (metricValues validData field))"
  by (auto simp: metricAggregate_def Let_def split: if_splits)

text \<open>
  C1 (amended). For every summary row and metric field, the value taken for
  aggregation is the one under the prefixed key \<open>w_\<close> + field when the row has it:
  in the metrics table whenever that value is not \<open>undefined\<close>, in the headline
  figures whenever it is truthy; the unprefixed key is read otherwise. The metrics
  table aggregates (mean, standard deviation, minimum, maximum) exactly the values
  that are numbers other than NaN, converted to the display unit; the headline lists
  keep exactly the values whose conversion is not NaN.
\<close>

theorem prefixed_value_preferred:
  "(get row (''w_'' @ field) \<noteq> JUndefined \<longrightarrow> metricValue row field = get row (''w_'' @ field)) \<and>
   (get row (''w_'' @ field) = JUndefined \<longrightarrow> metricValue row field = get row field) \<and>
   (truthy (get row (''w_'' @ field)) \<longrightarrow> summaryValue row field = get row (''w_'' @ field)) \<and>
   (\<not> truthy (get row (''w_'' @ field)) \<longrightarrow> summaryValue row field = get row field) \<and>
   (n \<in> set (metricValues validData field) \<longleftrightarrow>
      n \<noteq> NaN \<and> (\<exists>d \<in> set validData. metricValue d field = JNum n)) \<and>
   length (metricValues validData field) =
     length (filter (\<lambda>d. \<exists>n. n \<noteq> NaN \<and> metricValue d field = JNum n) validData) \<and>
   (metricAggregate validData field = Some agg \<longrightarrow>
      ma_avg agg = mean (convertValues field (metricValues validData field))
      \<and> ma_stdev agg = std (convertValues field (metricValues validData field)) (ma_avg agg)
      \<and> ma_minVal agg = Math_min (convertValues field (metricValues validData field))
      \<and> ma_maxVal agg = Math_max (convertValues field (metricValues validData field))) \<and>
   (v \<in> set (durations h data) \<longleftrightarrow>
      v \<noteq> NaN \<and> (\<exists>d \<in> set data.
                    v = num_div (to_number h (summaryValue d ''total_sleep_time'')) 3600)) \<and>
   (v \<in> set (efficiencies h data) \<longleftrightarrow>
      v \<noteq> NaN \<and> (\<exists>d \<in> set data.
                    v = num_mul (to_number h (summaryValue d ''sleep_efficiency'')) 100)) \<and>
   (v \<in> set (snores h data) \<longleftrightarrow>
      v \<noteq> NaN \<and> (\<exists>d \<in> set data. v = num_div (to_number h (summaryValue d ''snoring'')) 60)) \<and>
   (u \<in> set (ahis h data) \<longleftrightarrow>
      u \<noteq> JNull \<and> to_number h u \<noteq> NaN
      \<and> (\<exists>d \<in> set data. u = summaryValue d ''apnea_hypopnea_index''))"
proof -
  have pick: "(get row (''w_'' @ field) \<noteq> JUndefined \<longrightarrow> metricValue row field = get row (''w_'' @ field))
    \<and> (get row (''w_'' @ field) = JUndefined \<longrightarrow> metricValue row field = get row field)"
    by (simp add: metricValue_def)
  have pick': "(truthy (get row (''w_'' @ field)) \<longrightarrow> summaryValue row field = get row (''w_'' @ field))
    \<and> (\<not> truthy (get row (''w_'' @ field)) \<longrightarrow> summaryValue row field = get row field)"
    by (simp add: summaryValue_def js_or_def)
  have d: "v \<in> set (durations h data) \<longleftrightarrow>
      v \<noteq> NaN \<and> (\<exists>d \<in> set data.
                    v = num_div (to_number h (summaryValue d ''total_sleep_time'')) 3600)"
    by (auto simp: durations_def)
  have e: "v \<in> set (efficiencies h data) \<longleftrightarrow>
      v \<noteq> NaN \<and> (\<exists>d \<in> set data.
                    v = num_mul (to_number h (summaryValue d ''sleep_efficiency'')) 100)"
    by (auto simp: efficiencies_def)
  have s: "v \<in> set (snores h data) \<longleftrightarrow>
      v \<noteq> NaN \<and> (\<exists>d \<in> set data. v = num_div (to_number h (summaryValue d ''snoring'')) 60)"
    by (auto simp: snores_def)
  have a: "u \<in> set (ahis h data) \<longleftrightarrow>
      u \<noteq> JNull \<and> to_number h u \<noteq> NaN
      \<and> (\<exists>d \<in> set data. u = summaryValue d ''apnea_hypopnea_index'')"
    by (auto simp: ahis_def)
  show ?thesis
    using pick pick' metricValues_set [of n validData field] metricValues_length [of validData field]
      metricAggregate_Some [of validData field agg] d e s a
    by blast
qed


text \<open>
  A row with 25200 under \<open>total_sleep_time\<close> and 28800 under \<open>w_total_sleep_time\<close>,
  and a row with the text n/a: the table aggregates the single value 28800.
\<close>

theorem prefixed_value_preferred_witness:
  "(let row = [(''total_sleep_time'', JNum (Fin 25200)), (''w_total_sleep_time'', JNum (Fin 28800))];
        other = [(''total_sleep_time'', JStr ''n/a'')]
    in get row ''w_total_sleep_time'' \<noteq> JUndefined
       \<and> truthy (get row ''w_total_sleep_time'')
       \<and> get other ''w_total_sleep_time'' = JUndefined
       \<and> metricValue row ''total_sleep_time'' = JNum (Fin 28800)
       \<and> summaryValue row ''total_sleep_time'' = JNum (Fin 28800)
       \<and> metricValue other ''total_sleep_time'' = JStr ''n/a''
       \<and> Fin 28800 \<in> set (metricValues [row, other] ''total_sleep_time'')
       \<and> length (metricValues [row, other] ''total_sleep_time'') = 1)"
proof -
  let ?row = "[(''total_sleep_time'', JNum (Fin 25200)), (''w_total_sleep_time'', JNum (Fin 28800))]"
  let ?other = "[(''total_sleep_time'', JStr ''n/a'')]"
  have g: "get ?row ''w_total_sleep_time'' = JNum (Fin 28800)"
    "get ?other ''w_total_sleep_time'' = JUndefined"
    "get ?other ''total_sleep_time'' = JStr ''n/a''"
    by (simp_all add: get_def)
  note a = prefixed_value_preferred [of ?row "''total_sleep_time''" "Fin 28800" "[?row, ?other]"
             undefined NaN utc_host "[]" JNull]
  note b = prefixed_value_preferred [of ?other "''total_sleep_time''" "Fin 28800" "[?row, ?other]"
             undefined NaN utc_host "[]" JNull]
  have r: "metricValue ?row ''total_sleep_time'' = JNum (Fin 28800)"
    "summaryValue ?row ''total_sleep_time'' = JNum (Fin 28800)"
    using a g by simp_all
  have o: "metricValue ?other ''total_sleep_time'' = JStr ''n/a''"
    using b g by simp
  have m: "Fin 28800 \<in> set (metricValues [?row, ?other] ''total_sleep_time'')"
    "length (metricValues [?row, ?other] ''total_sleep_time'') = 1"
    using a r o by simp_all
  show ?thesis
    unfolding Let_def using g r o m by simp
qed

text \<open>
  C1 as stated says that the unprefixed value is taken when both keys are present.
  With 25200 under the unprefixed key and 28800 under the prefixed one, the metrics
  table takes 28800 and the headline duration is 8 hours.
\<close>

theorem unprefixed_not_preferred_counterexample:
  "get [(''total_sleep_time'', JNum (Fin 25200)), (''w_total_sleep_time'', JNum (Fin 28800))] ''total_sleep_time'' = JNum (Fin 25200) \<and>
   get [(''total_sleep_time'', JNum (Fin 25200)), (''w_total_sleep_time'', JNum (Fin 28800))] ''w_total_sleep_time'' = JNum (Fin 28800) \<and>
   metricValues [[(''total_sleep_time'', JNum (Fin 25200)), (''w_total_sleep_time'', JNum (Fin 28800))]] ''total_sleep_time'' = [Fin 28800] \<and>
   durations utc_host [[(''total_sleep_time'', JNum (Fin 25200)), (''w_total_sleep_time'', JNum (Fin 28800))]] = [Fin 8]"
  by (simp add: get_def metricValues_def metricValue_def durations_def summaryValue_def js_or_def)

end
